theory Spec2Isabelle
  imports Complex_Main "HOL-Library.Sublist" "HOL-Library.Log_Nat"
begin

text \<open>
  GeoLoc.js comes in two editions. The model follows the one with per-call options and
  \<open>getPositionParallel\<close>; the other edition's \<open>getPosition(cb)\<close> has the same cache
  check and the same inner function, with the instance's settings only.
\<close>

section \<open>JavaScript values used by GeoLoc.js\<close>

text \<open>
  A JavaScript number is \<open>NaN\<close>, one of the two infinities, negative zero, or a finite
  value of the double format, kept as the rational it denotes; \<open>Fin 0\<close> is positive zero.
\<close>

datatype jsnum = NaN | PInf | NInf | NegZero | Fin rat

datatype jsval =
    VUndefined
  | VNull
  | VBool bool
  | VNum jsnum
  | VStr string
  | VObject

text \<open>The \<open>typeof\<close> operator.\<close>

fun typeof :: "jsval \<Rightarrow> string" where
  "typeof VUndefined = ''undefined''"
| "typeof VNull = ''object''"
| "typeof (VBool b) = ''boolean''"
| "typeof (VNum n) = ''number''"
| "typeof (VStr s) = ''string''"
| "typeof VObject = ''object''"

subsection \<open>Rounding to a double\<close>

text \<open>
  The double nearest to a rational, ties going to the even significand. For a positive
  value \<open>a\<close> in the binade \<open>2 ^ e \<le> a < 2 ^ (e + 1)\<close>, the exponent not below that of
  the subnormal numbers, the significand is \<open>a / 2 ^ (e - 52)\<close> rounded to an integer
  \<open>n\<close>, and the double is \<open>n * 2 ^ (e - 52)\<close>. That value reaches \<open>2 ^ 1024\<close>, and the
  result is infinite, when \<open>e\<close> is 1024 or more, or \<open>e\<close> is 1023 and \<open>n\<close> has been
  rounded up to \<open>2 ^ 53\<close>. A nonzero value that rounds to zero keeps its sign.
\<close>

definition pow2 :: "int \<Rightarrow> rat" where
  "pow2 e = (if 0 \<le> e then 2 ^ nat e else 1 / 2 ^ nat (- e))"

definition round_half_even :: "rat \<Rightarrow> int" where
  "round_half_even x =
     (let f = \<lfloor>x\<rfloor>; d = x - of_int f
      in if d < 1 / 2 then f
         else if 1 / 2 < d then f + 1
         else if even f then f
         else f + 1)"

definition binade :: "rat \<Rightarrow> int" where
  "binade a =
     (case quotient_of a of
        (p, q) \<Rightarrow>
          let e0 = bitlen p - bitlen q
          in if pow2 e0 \<le> a then e0 else e0 - 1)"

definition significand :: "rat \<Rightarrow> int \<times> int" where
  "significand a =
     (let e = max (binade a) (- 1022)
      in (e, round_half_even (a / pow2 (e - 52))))"

definition to_double :: "rat \<Rightarrow> jsnum" where
  "to_double r =
     (if r = 0 then Fin 0
      else
        (case significand \<bar>r\<bar> of
           (e, n) \<Rightarrow>
             if 1024 \<le> e \<or> (e = 1023 \<and> n = 2 ^ 53) then (if r < 0 then NInf else PInf)
             else if n = 0 then (if r < 0 then NegZero else Fin 0)
             else Fin ((if r < 0 then - 1 else 1) * of_int n * pow2 (e - 52))))"

definition negate :: "jsnum \<Rightarrow> jsnum" where
  "negate n =
     (case n of
        NaN \<Rightarrow> NaN
      | PInf \<Rightarrow> NInf
      | NInf \<Rightarrow> PInf
      | NegZero \<Rightarrow> Fin 0
      | Fin r \<Rightarrow> (if r = 0 then NegZero else Fin (- r)))"

text \<open>
  Subtraction and \<open><=\<close> on numbers. Every operation on \<open>NaN\<close> gives \<open>NaN\<close> and every
  comparison with it is false; the difference of two finite numbers is rounded.
\<close>

fun sub_num :: "jsnum \<Rightarrow> jsnum \<Rightarrow> jsnum" where
  "sub_num NaN y = NaN"
| "sub_num x NaN = NaN"
| "sub_num PInf PInf = NaN"
| "sub_num PInf y = PInf"
| "sub_num NInf NInf = NaN"
| "sub_num NInf y = NInf"
| "sub_num x PInf = NInf"
| "sub_num x NInf = PInf"
| "sub_num NegZero NegZero = Fin 0"
| "sub_num NegZero (Fin b) = negate (Fin b)"
| "sub_num (Fin a) NegZero = Fin a"
| "sub_num (Fin a) (Fin b) = to_double (a - b)"

fun le_num :: "jsnum \<Rightarrow> jsnum \<Rightarrow> bool" where
  "le_num NaN y = False"
| "le_num x NaN = False"
| "le_num NInf y = True"
| "le_num x PInf = True"
| "le_num PInf y = False"
| "le_num x NInf = False"
| "le_num NegZero NegZero = True"
| "le_num NegZero (Fin b) = (0 \<le> b)"
| "le_num (Fin a) NegZero = (a \<le> 0)"
| "le_num (Fin a) (Fin b) = (a \<le> b)"

subsection \<open>Strings\<close>

text \<open>
  A string of the program is a sequence of UTF-16 code units, each an integer from 0 to
  65535. \<open>ascii\<close> writes one from its ASCII text, \<open>cu\<close> is the code unit of an ASCII
  character.
\<close>

type_synonym jsstring = "int list"

definition cu :: "char \<Rightarrow> int" where
  "cu c = of_char c"

definition ascii :: "string \<Rightarrow> jsstring" where
  "ascii s = map cu s"

subsection \<open>\<open>Number(string)\<close>\<close>

text \<open>
  The conversion of a string to a number (StringToNumber of the language): white space
  and line terminators are trimmed at both ends, the empty string is 0, then a
  hexadecimal, octal or binary integer with its prefix, or a signed decimal literal with
  optional fraction and exponent, or a signed \<open>Infinity\<close>; anything else is \<open>NaN\<close>. The
  value of the literal is rounded to the nearest double.
\<close>

definition digit_value :: "int \<Rightarrow> int option" where
  "digit_value n =
     (if 48 \<le> n \<and> n \<le> 57 then Some (n - 48)
      else if 97 \<le> n \<and> n \<le> 102 then Some (n - 87)
      else if 65 \<le> n \<and> n \<le> 70 then Some (n - 55)
      else None)"

definition is_digit_in :: "int \<Rightarrow> int \<Rightarrow> bool" where
  "is_digit_in b c = (case digit_value c of None \<Rightarrow> False | Some d \<Rightarrow> d < b)"

definition digits_value :: "int \<Rightarrow> jsstring \<Rightarrow> int" where
  "digits_value b s =
     foldl (\<lambda>acc c. case digit_value c of None \<Rightarrow> acc * b | Some d \<Rightarrow> acc * b + d) 0 s"

text \<open>
  Tab, line feed, vertical tab, form feed, carriage return, space, no-break space, the
  other space separators (U+1680, U+2000 to U+200A, U+202F, U+205F, U+3000), the line and
  paragraph separators (U+2028, U+2029) and the byte order mark (U+FEFF).
\<close>

definition is_white_space :: "int \<Rightarrow> bool" where
  "is_white_space u =
     (u \<in> {9, 10, 11, 12, 13, 32, 160, 5760, 8232, 8233, 8239, 8287, 12288, 65279} \<or>
      (8192 \<le> u \<and> u \<le> 8202))"

definition trim :: "jsstring \<Rightarrow> jsstring" where
  "trim s = rev (dropWhile is_white_space (rev (dropWhile is_white_space s)))"

definition strip_sign :: "jsstring \<Rightarrow> bool \<times> jsstring" where
  "strip_sign s =
     (case s of
        [] \<Rightarrow> (False, [])
      | c # cs \<Rightarrow>
          if c = cu CHR ''-'' then (True, cs)
          else if c = cu CHR ''+'' then (False, cs)
          else (False, s))"

definition exponent_part :: "jsstring \<Rightarrow> int option" where
  "exponent_part s =
     (case s of
        [] \<Rightarrow> Some 0
      | c # cs \<Rightarrow>
          if c = cu CHR ''e'' \<or> c = cu CHR ''E'' then
            (case strip_sign cs of
               (neg, ds) \<Rightarrow>
                 if ds \<noteq> [] \<and> list_all (is_digit_in 10) ds
                 then Some (if neg then - digits_value 10 ds else digits_value 10 ds)
                 else None)
          else None)"

definition scale10 :: "rat \<Rightarrow> int \<Rightarrow> rat" where
  "scale10 r e = (if 0 \<le> e then r * 10 ^ nat e else r / 10 ^ nat (- e))"

definition unsigned_decimal :: "jsstring \<Rightarrow> jsnum" where
  "unsigned_decimal s =
     (if s = ascii ''Infinity'' then PInf
      else
        let ip = takeWhile (is_digit_in 10) s;
            r1 = dropWhile (is_digit_in 10) s;
            fr = (case r1 of
                    [] \<Rightarrow> ([], [])
                  | c # cs \<Rightarrow>
                      if c = cu CHR ''.''
                      then (takeWhile (is_digit_in 10) cs, dropWhile (is_digit_in 10) cs)
                      else ([], r1))
        in if ip = [] \<and> fst fr = [] then NaN
           else (case exponent_part (snd fr) of
                   None \<Rightarrow> NaN
                 | Some e \<Rightarrow>
                     to_double (scale10 (of_int (digits_value 10 (ip @ fst fr)))
                                  (e - int (length (fst fr))))))"

definition non_decimal :: "jsstring \<Rightarrow> int option" where
  "non_decimal s =
     (case s of
        z # x # ds \<Rightarrow>
          if z = cu CHR ''0'' \<and> ds \<noteq> [] then
            (if (x = cu CHR ''x'' \<or> x = cu CHR ''X'') \<and> list_all (is_digit_in 16) ds
               then Some (digits_value 16 ds)
             else if (x = cu CHR ''o'' \<or> x = cu CHR ''O'') \<and> list_all (is_digit_in 8) ds
               then Some (digits_value 8 ds)
             else if (x = cu CHR ''b'' \<or> x = cu CHR ''B'') \<and> list_all (is_digit_in 2) ds
               then Some (digits_value 2 ds)
             else None)
          else None
      | _ \<Rightarrow> None)"

definition Number_string :: "jsstring \<Rightarrow> jsnum" where
  "Number_string s =
     (let t = trim s in
      if t = [] then Fin 0
      else (case non_decimal t of
              Some n \<Rightarrow> to_double (of_int n)
            | None \<Rightarrow>
                (case strip_sign t of
                   (neg, u) \<Rightarrow> if neg then negate (unsigned_decimal u) else unsigned_decimal u)))"

subsection \<open>\<open>split(',')\<close> and element access\<close>

fun split_comma :: "jsstring \<Rightarrow> jsstring list" where
  "split_comma [] = [[]]"
| "split_comma (c # cs) =
     (if c = cu CHR '','' then [] # split_comma cs
      else (case split_comma cs of
              [] \<Rightarrow> [[c]]
            | f # fs \<Rightarrow> (c # f) # fs))"

text \<open>
  \<open>Number(storedData[i])\<close>, for the conversion \<open>num\<close> of a string to a number: an index
  past the end reads \<open>undefined\<close>, and \<open>Number(undefined)\<close> is \<open>NaN\<close>. Everything below
  that reads the store takes \<open>num\<close> as its first argument; \<open>Number_string\<close> is the
  conversion of the language.
\<close>

definition Number_at :: "(jsstring \<Rightarrow> jsnum) \<Rightarrow> jsstring list \<Rightarrow> nat \<Rightarrow> jsnum" where
  "Number_at num fields i = (if i < length fields then num (fields ! i) else NaN)"

text \<open>\<open>a || b\<close> on an optional integer: \<open>undefined\<close> and 0 are falsy.\<close>

definition or_else :: "int option \<Rightarrow> int \<Rightarrow> int" where
  "or_else a b = (case a of None \<Rightarrow> b | Some x \<Rightarrow> if x = 0 then b else x)"

section \<open>Positions, providers and the local store\<close>

record position =
  latitude :: jsval
  longitude :: jsval

text \<open>
  The error handed to the completion callback: a provider's own error, passed on as it
  is, or the \<open>TypeError\<close> that GeoLoc creates.
\<close>

datatype error = ProviderError string | TypeError string

text \<open>
  What a provider passes to the callback it was given: \<open>cb(err, data)\<close> with a truthy
  \<open>err\<close>, or with a falsy \<open>err\<close> and a data object.
\<close>

datatype reply = Fails error | Yields position

type_synonym provider = string

text \<open>
  How the providers behave during one sequential call: \<open>None\<close> when the provider never
  calls back, otherwise its reply and the value of \<open>Date.now()\<close> when its callback runs.
\<close>

type_synonym behaviour = "provider \<Rightarrow> (reply \<times> int) option"

type_synonym storage = "jsstring \<rightharpoonup> jsstring"

definition storage_key :: jsstring where
  "storage_key = ascii ''_GeoLocData''"

text \<open>What a call does, in order.\<close>

datatype event =
    Contacted provider int
  | Replied provider reply
  | Aborted nat
  | SetItem jsstring jsstring
  | Completed "error option" "position option"

datatype outcome = Returned | Threw error

section \<open>The cache read\<close>

definition getPositionFromLocalStorage ::
  "(jsstring \<Rightarrow> jsnum) \<Rightarrow> storage \<Rightarrow> int \<Rightarrow> int \<Rightarrow> position option" where
  "getPositionFromLocalStorage num ls now maximumAge =
     (case ls storage_key of
        None \<Rightarrow> None
      | Some storedData \<Rightarrow>
          if storedData \<noteq> [] then
            (let fields = split_comma storedData;
                 timeStamp = Number_at num fields 2
             in if le_num (sub_num (Fin (of_int now)) timeStamp) (Fin (of_int maximumAge))
                then Some \<lparr>latitude = VNum (Number_at num fields 0),
                           longitude = VNum (Number_at num fields 1)\<rparr>
                else None)
          else None)"

section \<open>Configuration\<close>

record options =
  opt_providerTimeout :: "int option"
  opt_maximumAge :: "int option"
  opt_providers :: "provider list option"

definition empty_options :: options where
  "empty_options = \<lparr>opt_providerTimeout = None, opt_maximumAge = None, opt_providers = None\<rparr>"

record geoloc =
  providerTimeout :: int
  maximumAge :: int
  providers :: "provider list"

text \<open>
  The constructor: the prototype holds the defaults 10000 and \<open>1000 * 60 * 60 * 24\<close>,
  which a truthy option shadows; the provider list is the option or the process-wide
  default list.
\<close>

definition new_GeoLoc :: "provider list \<Rightarrow> options option \<Rightarrow> geoloc" where
  "new_GeoLoc defaultProviders arg =
     (let options = (case arg of None \<Rightarrow> empty_options | Some opts \<Rightarrow> opts)
      in \<lparr>providerTimeout = or_else (opt_providerTimeout options) 10000,
          maximumAge = or_else (opt_maximumAge options) (1000 * 60 * 60 * 24),
          providers = (case opt_providers options of
                         Some ps \<Rightarrow> ps
                       | None \<Rightarrow> defaultProviders)\<rparr>)"

definition use :: "provider list \<Rightarrow> geoloc \<Rightarrow> geoloc" where
  "use ps this = this\<lparr>providers := ps\<rparr>"

text \<open>
  The first argument of \<open>getPosition\<close> and \<open>getPositionParallel\<close>: the callback
  itself (\<open>typeof options == 'function'\<close>, then \<open>options = {}\<close>) or an options object.
\<close>

datatype first_arg = CallbackOnly | WithOptions options

definition options_of :: "first_arg \<Rightarrow> options" where
  "options_of arg = (case arg of CallbackOnly \<Rightarrow> empty_options | WithOptions opts \<Rightarrow> opts)"

section \<open>Writing the cache record\<close>

text \<open>
  \<open>[data.latitude, data.longitude, Date.now()].join(',')\<close>. The conversion of a number
  to a string is the language's; it is the parameter \<open>ts\<close> of everything below.
  \<open>join\<close> writes \<open>undefined\<close> and \<open>null\<close> as the empty string.
\<close>

definition join_element :: "(jsnum \<Rightarrow> jsstring) \<Rightarrow> jsval \<Rightarrow> jsstring" where
  "join_element ts v =
     (case v of
        VUndefined \<Rightarrow> []
      | VNull \<Rightarrow> []
      | VBool b \<Rightarrow> (if b then ascii ''true'' else ascii ''false'')
      | VNum n \<Rightarrow> ts n
      | VStr s \<Rightarrow> ascii s
      | VObject \<Rightarrow> ascii ''[object Object]'')"

definition cache_record :: "(jsnum \<Rightarrow> jsstring) \<Rightarrow> position \<Rightarrow> int \<Rightarrow> jsstring" where
  "cache_record ts data now =
     join_element ts (latitude data) @ ascii '','' @ join_element ts (longitude data) @
     ascii '','' @ join_element ts (VNum (Fin (of_int now)))"

definition malformed :: "position \<Rightarrow> bool" where
  "malformed data =
     (typeof (latitude data) \<noteq> ''number'' \<or> typeof (longitude data) \<noteq> ''number'')"

section \<open>The sequential strategy\<close>

definition after :: "event list \<Rightarrow> outcome \<times> event list \<Rightarrow> outcome \<times> event list" where
  "after evs r = (fst r, evs @ snd r)"

text \<open>
  The inner function \<open>getPosition(providers)\<close>. \<open>providers.shift()\<close> on an empty array
  is \<open>undefined\<close>, and reading \<open>getPosition\<close> of it throws a \<open>TypeError\<close> (the text of
  the message is the engine's). After the shift, \<open>rest\<close> is what the array holds.
\<close>

fun getPosition_inner ::
  "(jsnum \<Rightarrow> jsstring) \<Rightarrow> behaviour \<Rightarrow> int \<Rightarrow> provider list \<Rightarrow> outcome \<times> event list" where
  "getPosition_inner ts env timeout [] =
     (Threw (TypeError ''Cannot read properties of undefined''), [])"
| "getPosition_inner ts env timeout (provider # rest) =
     (case env provider of
        None \<Rightarrow> (Returned, [Contacted provider timeout])
      | Some (r, now) \<Rightarrow>
          after [Contacted provider timeout, Replied provider r]
            (case r of
               Fails err \<Rightarrow>
                 if rest \<noteq> [] then getPosition_inner ts env timeout rest
                 else (Returned, [Completed (Some err) None])
             | Yields data \<Rightarrow>
                 if malformed data then
                   (if rest \<noteq> [] then getPosition_inner ts env timeout rest
                    else (Returned, [Completed (Some (TypeError ''Incorrect data'')) None]))
                 else (Returned, [SetItem storage_key (cache_record ts data now),
                                  Completed None (Some data)])))"

text \<open>
  \<open>getPosition(options, cb)\<close>. The local \<open>providers\<close> is computed from the options
  and the instance, and the inner function is then started on
  \<open>this.providers.slice(0)\<close>.
\<close>

definition getPosition ::
  "(jsstring \<Rightarrow> jsnum) \<Rightarrow> (jsnum \<Rightarrow> jsstring) \<Rightarrow> behaviour \<Rightarrow> storage \<Rightarrow> int \<Rightarrow> geoloc
     \<Rightarrow> first_arg \<Rightarrow> outcome \<times> event list" where
  "getPosition num ts env ls now this arg =
     (let options = options_of arg in
      case getPositionFromLocalStorage num ls now
             (or_else (opt_maximumAge options) (maximumAge this)) of
        Some pos \<Rightarrow> (Returned, [Completed None (Some pos)])
      | None \<Rightarrow>
          let providerTimeout' = or_else (opt_providerTimeout options) (providerTimeout this);
              providers' = (case opt_providers options of
                              Some ps \<Rightarrow> ps
                            | None \<Rightarrow> providers this)
          in getPosition_inner ts env providerTimeout' (providers this))"

text \<open>The local store after the events of a call.\<close>

fun store_after :: "event list \<Rightarrow> storage \<Rightarrow> storage" where
  "store_after [] ls = ls"
| "store_after (SetItem k v # es) ls = store_after es (ls(k \<mapsto> v))"
| "store_after (e # es) ls = store_after es ls"

section \<open>The parallel strategy\<close>

text \<open>
  What a provider does inside \<open>provider.getPosition\<close>, before it returns the request:
  \<open>None\<close> when it returns without having called back, otherwise the reply it passes to
  the callback at once, and \<open>Date.now()\<close> then.
\<close>

type_synonym immediate = "provider \<Rightarrow> (reply \<times> int) option"

text \<open>
  The table \<open>requests\<close> of the call, in the order \<open>for ... in\<close> visits it (ascending
  identifiers; every new identifier is \<open>++uidCounter\<close>, larger than all before), the
  global \<open>uidCounter\<close>, the identifiers this call has given to its requests, and what
  the call has done so far.
\<close>

record par_state =
  requests :: "(nat \<times> provider) list"
  uidCounter :: nat
  assigned :: "nat list"
  done_events :: "event list"

definition emit :: "event list \<Rightarrow> par_state \<Rightarrow> par_state" where
  "emit evs st = st\<lparr>done_events := done_events st @ evs\<rparr>"

definition abortAllRequests :: "par_state \<Rightarrow> par_state" where
  "abortAllRequests st =
     (emit (map (\<lambda>r. Aborted (fst r)) (requests st)) st)\<lparr>requests := []\<rparr>"

definition hasRequests :: "par_state \<Rightarrow> bool" where
  "hasRequests st = (requests st \<noteq> [])"

definition delete_request :: "nat \<Rightarrow> par_state \<Rightarrow> par_state" where
  "delete_request rid st = st\<lparr>requests := filter (\<lambda>r. fst r \<noteq> rid) (requests st)\<rparr>"

text \<open>
  The callback that \<open>setData\<close> hands to a provider. \<open>req\<close> is the variable of that
  \<open>setData\<close>: \<open>None\<close> while \<open>provider.getPosition\<close> has not returned, and then the
  first statement, \<open>delete requests[req._GeoLoc_id]\<close>, throws a \<open>TypeError\<close>; afterwards
  the request with its identifier.
\<close>

definition provider_callback ::
  "(jsnum \<Rightarrow> jsstring) \<Rightarrow> nat option \<Rightarrow> reply \<Rightarrow> int \<Rightarrow> par_state \<Rightarrow> outcome \<times> par_state" where
  "provider_callback ts req r now st =
     (case req of
        None \<Rightarrow> (Threw (TypeError ''Cannot read properties of undefined''), st)
      | Some rid \<Rightarrow>
          (Returned,
           let st1 = delete_request rid st in
           case r of
             Fails err \<Rightarrow>
               if \<not> hasRequests st1 then emit [Completed (Some err) None] st1 else st1
           | Yields data \<Rightarrow>
               if malformed data then
                 (if \<not> hasRequests st1
                  then emit [Completed (Some (TypeError ''Incorrect data'')) None] st1
                  else st1)
               else emit [SetItem storage_key (cache_record ts data now),
                          Completed None (Some data)]
                      (abortAllRequests st1)))"

text \<open>
  \<open>setData(provider)\<close>. A provider that calls back inside \<open>provider.getPosition\<close> runs
  the callback with \<open>req\<close> still undefined; what the callback throws leaves
  \<open>provider.getPosition\<close> and \<open>setData\<close>, and the request is never registered.
\<close>

definition setData ::
  "(jsnum \<Rightarrow> jsstring) \<Rightarrow> immediate \<Rightarrow> int \<Rightarrow> provider \<Rightarrow> par_state \<Rightarrow> outcome \<times> par_state" where
  "setData ts sync timeout provider st =
     (let st1 = emit [Contacted provider timeout] st in
      case sync provider of
        Some (r, now) \<Rightarrow> provider_callback ts None r now st1
      | None \<Rightarrow>
          (let rid = uidCounter st1 + 1
           in (Returned,
               st1\<lparr>uidCounter := rid, assigned := assigned st1 @ [rid],
                   requests := requests st1 @ [(rid, provider)]\<rparr>)))"

text \<open>The loop over the providers; an exception ends it.\<close>

fun start_requests ::
  "(jsnum \<Rightarrow> jsstring) \<Rightarrow> immediate \<Rightarrow> int \<Rightarrow> provider list \<Rightarrow> par_state
     \<Rightarrow> outcome \<times> par_state" where
  "start_requests ts sync timeout [] st = (Returned, st)"
| "start_requests ts sync timeout (p # ps) st =
     (case setData ts sync timeout p st of
        (Returned, st') \<Rightarrow> start_requests ts sync timeout ps st'
      | (Threw e, st') \<Rightarrow> (Threw e, st'))"

definition getPositionParallel ::
  "(jsstring \<Rightarrow> jsnum) \<Rightarrow> (jsnum \<Rightarrow> jsstring) \<Rightarrow> immediate \<Rightarrow> storage \<Rightarrow> int \<Rightarrow> nat
     \<Rightarrow> geoloc \<Rightarrow> first_arg \<Rightarrow> outcome \<times> par_state" where
  "getPositionParallel num ts sync ls now uid this arg =
     (let options = options_of arg;
          st0 = \<lparr>requests = [], uidCounter = uid, assigned = [], done_events = []\<rparr> in
      case getPositionFromLocalStorage num ls now
             (or_else (opt_maximumAge options) (maximumAge this)) of
        Some pos \<Rightarrow> (Returned, emit [Completed None (Some pos)] st0)
      | None \<Rightarrow>
          let providerTimeout' = or_else (opt_providerTimeout options) (providerTimeout this);
              providers' = (case opt_providers options of
                              Some ps \<Rightarrow> ps
                            | None \<Rightarrow> providers this)
          in start_requests ts sync providerTimeout' providers' st0)"

text \<open>
  The callbacks that run after the call has returned or thrown, in the order they run:
  the identifier of the request whose callback it is, what the provider passes, and
  \<open>Date.now()\<close> then. Only a request of this call has a callback; an identifier the call
  never gave out stands for no callback, and nothing happens.
\<close>

type_synonym arrival = "nat \<times> reply \<times> int"

definition arrive :: "(jsnum \<Rightarrow> jsstring) \<Rightarrow> arrival \<Rightarrow> par_state \<Rightarrow> par_state" where
  "arrive ts a st =
     (case a of
        (rid, r, now) \<Rightarrow>
          if rid \<in> set (assigned st) then snd (provider_callback ts (Some rid) r now st)
          else st)"

fun deliver :: "(jsnum \<Rightarrow> jsstring) \<Rightarrow> arrival list \<Rightarrow> par_state \<Rightarrow> par_state" where
  "deliver ts [] st = st"
| "deliver ts (a # as) st = deliver ts as (arrive ts a st)"

definition completions :: "event list \<Rightarrow> nat" where
  "completions evs = length (filter (\<lambda>e. case e of Completed err pos \<Rightarrow> True | _ \<Rightarrow> False) evs)"

text \<open>
  Callbacks come only from requests that are still in the table when they run: a
  provider calls back at most once, and not after its request was aborted.
\<close>

fun in_flight_only :: "(jsnum \<Rightarrow> jsstring) \<Rightarrow> arrival list \<Rightarrow> par_state \<Rightarrow> bool" where
  "in_flight_only ts [] st = True"
| "in_flight_only ts ((rid, r, now) # as) st =
     (rid \<in> set (map fst (requests st)) \<and>
      in_flight_only ts as (arrive ts (rid, r, now) st))"

section \<open>Reading a trace\<close>

text \<open>The providers contacted, in the order they were contacted.\<close>

fun contacts :: "event list \<Rightarrow> provider list" where
  "contacts [] = []"
| "contacts (Contacted p t # es) = p # contacts es"
| "contacts (e # es) = contacts es"

text \<open>
  A trace is serial when every contact is followed at once by the reply of the same
  provider, or is the last event: no provider is contacted while another has not yet
  called back.
\<close>

fun serial :: "event list \<Rightarrow> bool" where
  "serial [] = True"
| "serial [Contacted p t] = True"
| "serial (Contacted p t # Replied q r # es) = (p = q \<and> serial es)"
| "serial (Contacted p t # e # es) = False"
| "serial (Replied q r # es) = False"
| "serial (e # es) = serial es"

text \<open>One attempt: the contact and, when the provider calls back, its reply.\<close>

definition attempt :: "behaviour \<Rightarrow> int \<Rightarrow> provider \<Rightarrow> event list" where
  "attempt env timeout p =
     (case env p of
        None \<Rightarrow> [Contacted p timeout]
      | Some (r, now) \<Rightarrow> [Contacted p timeout, Replied p r])"

definition fails :: "behaviour \<Rightarrow> provider \<Rightarrow> bool" where
  "fails env p = (case env p of Some (Fails err, now) \<Rightarrow> True | _ \<Rightarrow> False)"

definition yields_malformed :: "behaviour \<Rightarrow> provider \<Rightarrow> bool" where
  "yields_malformed env p = (case env p of Some (Yields data, now) \<Rightarrow> malformed data | _ \<Rightarrow> False)"

section \<open>A number-to-string conversion for concrete inputs\<close>

text \<open>
  The decimal numeral of a number: what the language prints for \<open>NaN\<close>, the infinities,
  the zeros, integers and short decimal fractions of moderate size. The theorems below
  hold for every conversion; this one instantiates them at concrete inputs.
\<close>

fun nat_digits :: "nat \<Rightarrow> jsstring" where
  "nat_digits n =
     (if n < 10 then [48 + int n]
      else nat_digits (n div 10) @ [48 + int (n mod 10)])"

declare nat_digits.simps [simp del]

fun fraction_digits :: "nat \<Rightarrow> rat \<Rightarrow> jsstring" where
  "fraction_digits 0 r = []"
| "fraction_digits (Suc k) r =
     (if r = 0 then []
      else (let d = \<lfloor>r * 10\<rfloor>
            in (48 + d) # fraction_digits k (r * 10 - of_int d)))"

definition decimal_toString :: "jsnum \<Rightarrow> jsstring" where
  "decimal_toString n =
     (case n of
        NaN \<Rightarrow> ascii ''NaN''
      | PInf \<Rightarrow> ascii ''Infinity''
      | NInf \<Rightarrow> ascii ''-Infinity''
      | NegZero \<Rightarrow> ascii ''0''
      | Fin r \<Rightarrow>
          (let a = \<bar>r\<bar>; ip = nat \<lfloor>a\<rfloor>; fp = a - of_nat ip
           in (if r < 0 then ascii ''-'' else []) @ nat_digits ip @
              (if fp = 0 then [] else ascii ''.'' @ fraction_digits 17 fp)))"

section \<open>The static \<open>use\<close>\<close>

text \<open>
  \<open>GeoLoc.use(providers)\<close> is \<open>new GeoLoc({ providers: providers })\<close>; the process-wide
  default list is the first argument here.
\<close>

definition GeoLoc_use :: "provider list \<Rightarrow> provider list \<Rightarrow> geoloc" where
  "GeoLoc_use defaultProviders ps =
     new_GeoLoc defaultProviders
       (Some \<lparr>opt_providerTimeout = None, opt_maximumAge = None, opt_providers = Some ps\<rparr>)"

section \<open>Example providers\<close>

text \<open>
  Five providers for the concrete sequential runs below: \<open>gps\<close> and \<open>wifi\<close> fail,
  \<open>manual\<close> yields a latitude that is a string, \<open>ip\<close> yields the position (1, 2),
  \<open>drift\<close> yields a latitude that is \<open>NaN\<close>; any other provider never calls back. In
  the parallel runs \<open>nobody_at_once\<close> stands for providers that all call back after
  \<open>provider.getPosition\<close> has returned.
\<close>

definition example_env :: behaviour where
  "example_env p =
     (if p = ''gps'' then Some (Fails (ProviderError ''denied''), 100)
      else if p = ''wifi'' then Some (Fails (ProviderError ''timeout''), 120)
      else if p = ''manual''
        then Some (Yields \<lparr>latitude = VStr ''bad'', longitude = VNum (Fin 2)\<rparr>, 150)
      else if p = ''ip''
        then Some (Yields \<lparr>latitude = VNum (Fin 1), longitude = VNum (Fin 2)\<rparr>, 200)
      else if p = ''drift''
        then Some (Yields \<lparr>latitude = VNum NaN, longitude = VNum (Fin 2)\<rparr>, 250)
      else None)"

definition nobody_at_once :: immediate where
  "nobody_at_once p = None"

section \<open>The invariant of the parallel strategy\<close>

text \<open>
  Every request in the table is a request of this call. While requests are in the table
  the completion callback has not been invoked; once the table is empty it has been
  invoked at most once.
\<close>

definition at_most_once :: "par_state \<Rightarrow> bool" where
  "at_most_once st =
     (set (map fst (requests st)) \<subseteq> set (assigned st) \<and>
      (if requests st = [] then completions (done_events st) \<le> 1
       else completions (done_events st) = 0))"

section \<open>Facts about doubles\<close>

text \<open>An integer of magnitude below \<open>2 ^ 53\<close> is a double.\<close>

lemma pow2_nonpos: "e \<le> 0 \<Longrightarrow> pow2 e = 1 / 2 ^ nat (- e)"
  by (cases "e = 0") (simp_all add: pow2_def)

lemma round_half_even_int: "round_half_even (of_int z) = z"
  by (simp add: round_half_even_def)

lemma bitlen_below: "0 < k \<Longrightarrow> k < 2 ^ n \<Longrightarrow> bitlen k \<le> int n"
proof -
  assume k: "0 < k" and lt: "k < 2 ^ n"
  from bitlen_bounds [OF k] have "(2::int) ^ nat (bitlen k - 1) \<le> k" by simp
  with lt have "(2::int) ^ nat (bitlen k - 1) < 2 ^ n" by linarith
  then have "nat (bitlen k - 1) < n" by simp
  then show ?thesis by linarith
qed

lemma bitlen_one: "bitlen 1 = 1"
  by (simp add: bitlen_alt_def)

lemma binade_int: "0 < k \<Longrightarrow> k < 2 ^ 53 \<Longrightarrow> binade (of_int k) \<le> 52"
  using bitlen_below [of k 53] by (simp add: binade_def Let_def bitlen_one)

lemma significand_int:
  assumes "0 < k" and "k < 2 ^ 53"
  shows "\<exists>e. e \<le> 52 \<and> significand (of_int k) = (e, k * 2 ^ nat (52 - e))"
proof -
  define e where "e = max (binade (rat_of_int k)) (- 1022)"
  define j where "j = nat (52 - e)"
  have le: "e \<le> 52" using binade_int [OF assms] by (simp add: e_def)
  then have e: "e - 52 \<le> 0" by simp
  have q: "pow2 (e - 52) = 1 / 2 ^ j" using pow2_nonpos [OF e] by (simp add: j_def)
  have "rat_of_int k / (1 / 2 ^ j) = of_int (k * 2 ^ j)" by simp
  then have "round_half_even (rat_of_int k / (1 / 2 ^ j)) = k * 2 ^ j"
    by (simp only: round_half_even_int)
  then have "significand (of_int k) = (e, k * 2 ^ j)"
    by (simp add: significand_def Let_def e_def [symmetric] q)
  with le show ?thesis by (auto simp: j_def)
qed

lemma to_double_int: "\<bar>n\<bar> < 2 ^ 53 \<Longrightarrow> to_double (of_int n) = Fin (of_int n)"
proof -
  assume n: "\<bar>n\<bar> < 2 ^ 53"
  show ?thesis
  proof (cases "n = 0")
    case True
    then show ?thesis by (simp add: to_double_def)
  next
    case False
    then have k: "0 < \<bar>n\<bar>" by simp
    have abs: "\<bar>rat_of_int n\<bar> = rat_of_int \<bar>n\<bar>" by simp
    from significand_int [OF k n] obtain e where
      e: "e \<le> 52" and s: "significand (rat_of_int \<bar>n\<bar>) = (e, \<bar>n\<bar> * 2 ^ nat (52 - e))"
      by blast
    have q: "pow2 (e - 52) = 1 / 2 ^ nat (52 - e)"
      using pow2_nonpos [of "e - 52"] e by simp
    have nz: "\<bar>n\<bar> * 2 ^ nat (52 - e) \<noteq> 0" using False by simp
    have v: "rat_of_int (\<bar>n\<bar> * 2 ^ nat (52 - e)) * pow2 (e - 52) = rat_of_int \<bar>n\<bar>"
      by (simp add: q)
    have "to_double (rat_of_int n) =
            Fin ((if rat_of_int n < 0 then - 1 else 1) *
                 rat_of_int (\<bar>n\<bar> * 2 ^ nat (52 - e)) * pow2 (e - 52))"
      using False e nz by (simp add: to_double_def abs s del: of_int_abs of_int_mult of_int_power)
    also have "\<dots> = Fin ((if rat_of_int n < 0 then - 1 else 1) * rat_of_int \<bar>n\<bar>)"
      using v by (simp only: mult.assoc)
    also have "\<dots> = Fin (rat_of_int n)" by (simp add: abs_if)
    finally show ?thesis .
  qed
qed

lemma age_int:
  assumes "0 \<le> t" and "t < 2 ^ 53" and "0 \<le> now" and "now < 2 ^ 53"
  shows "sub_num (Fin (of_int now)) (Fin (of_int t)) = Fin (of_int (now - t))"
proof -
  have "\<bar>now - t\<bar> < 2 ^ 53" using assms by simp
  then have "to_double (of_int (now - t)) = Fin (of_int (now - t))" by (rule to_double_int)
  then show ?thesis by simp
qed

text \<open>
  The binade computed from the bit lengths of numerator and denominator is the binade of
  the value, and the rounded significand is within one half of the exact one.
\<close>

lemma pow2_powi: "pow2 e = 2 powi e"
  by (simp add: pow2_def power_int_def inverse_eq_divide power_one_over)

lemma pow2_pos: "0 < pow2 e"
  by (simp add: pow2_powi)

lemma pow2_add: "pow2 (x + y) = pow2 x * pow2 y"
  by (simp add: pow2_powi power_int_add)

lemma pow2_nat: "pow2 (int n) = 2 ^ n"
  by (simp add: pow2_def)

lemma pow2_one: "pow2 1 = 2"
  by (simp add: pow2_def)

lemma bitlen_pow2_bounds:
  assumes "0 < k"
  shows "pow2 (bitlen k - 1) \<le> rat_of_int k" and "rat_of_int k < pow2 (bitlen k)"
proof -
  from bitlen_bounds [OF assms]
  have lo: "(2::int) ^ nat (bitlen k - 1) \<le> k" and hi: "k < 2 ^ nat (bitlen k)" by simp_all
  have pos: "1 \<le> bitlen k" using assms by (simp add: bitlen_alt_def)
  have "rat_of_int (2 ^ nat (bitlen k - 1)) \<le> rat_of_int k" using lo by (simp only: of_int_le_iff)
  then show "pow2 (bitlen k - 1) \<le> rat_of_int k" using pos by (simp add: pow2_def)
  have "rat_of_int k < rat_of_int (2 ^ nat (bitlen k))" using hi by (simp only: of_int_less_iff)
  then show "rat_of_int k < pow2 (bitlen k)" using pos by (simp add: pow2_def)
qed

lemma binade_bounds:
  assumes "0 < a"
  shows "pow2 (binade a) \<le> a \<and> a < pow2 (binade a + 1)"
proof -
  obtain p q where pq: "quotient_of a = (p, q)" by (cases "quotient_of a")
  then have q: "0 < q" by (rule quotient_of_denom_pos)
  have a: "a = rat_of_int p / rat_of_int q" using pq by (rule quotient_of_div)
  have p: "0 < p" using assms q a by (simp add: zero_less_divide_iff)
  define e0 where "e0 = bitlen p - bitlen q"
  note bp = bitlen_pow2_bounds [OF p] and bq = bitlen_pow2_bounds [OF q]
  have qpos: "0 < rat_of_int q" using q by simp
  have lower: "pow2 (e0 - 1) \<le> a"
  proof -
    have "pow2 (e0 - 1) * rat_of_int q \<le> pow2 (e0 - 1) * pow2 (bitlen q)"
      using bq(2) pow2_pos [of "e0 - 1"] by (simp add: less_imp_le)
    also have "\<dots> = pow2 (bitlen p - 1)"
      by (simp add: e0_def pow2_add [symmetric])
    also have "\<dots> \<le> rat_of_int p" by (rule bp(1))
    finally show ?thesis using qpos by (simp add: a pos_le_divide_eq)
  qed
  have upper: "a < pow2 (e0 + 1)"
  proof -
    have "rat_of_int p < pow2 (bitlen p)" by (rule bp(2))
    also have "\<dots> = pow2 (e0 + 1) * pow2 (bitlen q - 1)"
      by (simp add: e0_def pow2_add [symmetric])
    also have "\<dots> \<le> pow2 (e0 + 1) * rat_of_int q"
      using bq(1) pow2_pos [of "e0 + 1"] by simp
    finally show ?thesis using qpos by (simp add: a pos_divide_less_eq)
  qed
  show ?thesis
  proof (cases "pow2 e0 \<le> a")
    case True
    then show ?thesis using upper pq by (simp add: binade_def Let_def e0_def)
  next
    case False
    then have "binade a = e0 - 1" using pq by (simp add: binade_def Let_def e0_def)
    then show ?thesis using lower False by simp
  qed
qed

lemma round_half_even_near: "\<bar>rat_of_int (round_half_even x) - x\<bar> \<le> 1 / 2"
proof -
  define f where "f = \<lfloor>x\<rfloor>"
  have lo: "rat_of_int f \<le> x" and hi: "x < rat_of_int f + 1"
    unfolding f_def by linarith+
  consider "x - rat_of_int f < 1 / 2" | "1 / 2 < x - rat_of_int f" | "x - rat_of_int f = 1 / 2"
    by linarith
  then show ?thesis
  proof cases
    case 1
    then have "round_half_even x = f" by (simp add: round_half_even_def Let_def f_def)
    then show ?thesis using lo 1 by simp
  next
    case 2
    then have "round_half_even x = f + 1" by (simp add: round_half_even_def Let_def f_def)
    then show ?thesis using hi 2 by simp
  next
    case 3
    then have "round_half_even x = f \<or> round_half_even x = f + 1"
      by (simp add: round_half_even_def Let_def f_def)
    then show ?thesis using 3 by auto
  qed
qed

text \<open>
  The conversions at a few inputs: one tenth, two ties at \<open>2 ^ 53\<close>, a string padded
  with a no-break space, a narrow no-break space and a byte order mark, negative zero, a
  literal that rounds up to an integer, a hexadecimal literal, trailing letters, negative
  infinity and the empty string.
\<close>

lemma to_double_tenth: "to_double (1 / 10) = Fin (3602879701896397 / 36028797018963968)" by code_simp

lemma to_double_tie_down: "to_double 9007199254740993 = Fin 9007199254740992" by code_simp

lemma to_double_tie_up: "to_double 9007199254740995 = Fin 9007199254740996" by code_simp

lemma Number_string_padded: "Number_string (160 # ascii ''990'' @ [8239, 65279]) = Fin 990" by code_simp

lemma Number_string_negative_zero: "Number_string (ascii ''-0'') = NegZero" by code_simp

lemma Number_string_rounds: "Number_string (ascii ''989.9999999999999999'') = Fin 990" by code_simp

lemma Number_string_hex: "Number_string (ascii ''0x1F'') = Fin 31" by code_simp

lemma Number_string_trailing: "Number_string (ascii ''12abc'') = NaN" by code_simp

lemma Number_string_infinity: "Number_string (ascii ''-Infinity'') = NInf" by code_simp

lemma Number_string_empty: "Number_string [] = Fin 0" by code_simp

section \<open>Facts about the cache read and the sequential chain\<close>

lemma cache_read_record:
  assumes "ls storage_key = Some s" and "s \<noteq> []"
  shows "getPositionFromLocalStorage num ls now m =
           (if le_num (sub_num (Fin (of_int now)) (Number_at num (split_comma s) 2))
                 (Fin (of_int m))
            then Some \<lparr>latitude = VNum (Number_at num (split_comma s) 0),
                       longitude = VNum (Number_at num (split_comma s) 1)\<rparr>
            else None)"
  using assms by (simp add: getPositionFromLocalStorage_def Let_def)

lemma cache_read_no_record:
  "ls storage_key = None \<or> ls storage_key = Some [] \<Longrightarrow>
     getPositionFromLocalStorage num ls now m = None"
  by (auto simp: getPositionFromLocalStorage_def)

lemma cache_read_int:
  assumes "ls storage_key = Some s" and "s \<noteq> []"
    and "Number_at num (split_comma s) 2 = Fin (of_int t)"
    and "0 \<le> t" and "t < 2 ^ 53" and "0 \<le> now" and "now < 2 ^ 53"
  shows "getPositionFromLocalStorage num ls now m =
           (if now - t \<le> m
            then Some \<lparr>latitude = VNum (Number_at num (split_comma s) 0),
                       longitude = VNum (Number_at num (split_comma s) 1)\<rparr>
            else None)"
  using assms(3) age_int [OF assms(4-7)]
  by (simp add: cache_read_record [where ls = ls and s = s, OF assms(1,2)])

lemma after_after: "after xs (after ys r) = after (xs @ ys) r"
  by (simp add: after_def)

lemma after_Nil: "after [] r = r"
  by (simp add: after_def)

lemma inner_falls_through:
  assumes "fails env p \<or> yields_malformed env p" and "rest \<noteq> []"
  shows "getPosition_inner ts env timeout (p # rest) =
           after (attempt env timeout p) (getPosition_inner ts env timeout rest)"
  using assms
  by (auto simp: fails_def yields_malformed_def attempt_def split: option.splits reply.splits prod.splits)

lemma inner_after_failures:
  assumes "\<forall>q\<in>set pre. fails env q \<or> yields_malformed env q" and "rest \<noteq> []"
  shows "getPosition_inner ts env timeout (pre @ rest) =
           after (concat (map (attempt env timeout) pre)) (getPosition_inner ts env timeout rest)"
  using assms
proof (induction pre)
  case Nil
  then show ?case by (simp add: after_Nil)
next
  case (Cons q pre)
  have "getPosition_inner ts env timeout (q # (pre @ rest)) =
          after (attempt env timeout q) (getPosition_inner ts env timeout (pre @ rest))"
    using Cons.prems by (intro inner_falls_through) auto
  then show ?case using Cons by (simp add: after_after)
qed

lemma contacts_append: "contacts (xs @ ys) = contacts xs @ contacts ys"
  by (induction xs rule: contacts.induct) auto

lemma contacts_attempt: "contacts (attempt env timeout p) = [p]"
  by (simp add: attempt_def split: option.splits prod.splits)

lemma contacts_attempts: "contacts (concat (map (attempt env timeout) ps)) = ps"
  by (induction ps) (auto simp: contacts_append contacts_attempt)

lemma store_after_append: "store_after (xs @ ys) ls = store_after ys (store_after xs ls)"
proof (induction xs arbitrary: ls)
  case Nil
  then show ?case by simp
next
  case (Cons e xs)
  then show ?case by (cases e) (simp_all add: fun_upd_def)
qed

lemma store_after_attempts: "store_after (concat (map (attempt env timeout) ps)) ls = ls"
  by (induction ps) (auto simp: store_after_append attempt_def split: option.splits prod.splits)

lemma contacts_inner: "prefix (contacts (snd (getPosition_inner ts env timeout ps))) ps"
  by (induction ps) (auto simp: after_def split: option.splits reply.splits prod.splits)

lemma serial_inner: "serial (snd (getPosition_inner ts env timeout ps))"
  by (induction ps) (auto simp: after_def split: option.splits reply.splits prod.splits)

lemma getPosition_miss:
  assumes "getPositionFromLocalStorage num ls now
             (or_else (opt_maximumAge (options_of arg)) (maximumAge this)) = None"
  shows "getPosition num ts env ls now this arg =
           getPosition_inner ts env
             (or_else (opt_providerTimeout (options_of arg)) (providerTimeout this))
             (providers this)"
  using assms by (simp add: getPosition_def Let_def)

lemma getPosition_hit:
  assumes "getPositionFromLocalStorage num ls now
             (or_else (opt_maximumAge (options_of arg)) (maximumAge this)) = Some pos"
  shows "getPosition num ts env ls now this arg = (Returned, [Completed None (Some pos)])"
  using assms by (simp add: getPosition_def Let_def)

lemma take1_contacts_inner:
  "take 1 (contacts (snd (getPosition_inner ts env timeout ps))) = take 1 ps"
  by (cases ps) (auto simp: after_def split: option.splits prod.splits)

lemma GeoLoc_use_fields:
  "providerTimeout (GeoLoc_use d ps) = 10000"
  "maximumAge (GeoLoc_use d ps) = 86400000"
  "providers (GeoLoc_use d ps) = ps"
  by (simp_all add: GeoLoc_use_def new_GeoLoc_def or_else_def)

lemma empty_store_misses: "getPositionFromLocalStorage num Map.empty now m = None"
  by (simp add: getPositionFromLocalStorage_def)

lemma CallbackOnly_defaults:
  "or_else (opt_maximumAge (options_of CallbackOnly)) m = m"
  "or_else (opt_providerTimeout (options_of CallbackOnly)) t = t"
  by (simp_all add: options_of_def empty_options_def or_else_def)

section \<open>The cache read: absent records, unparsed fields and age\<close>

text \<open>
  Claim C4, at a concrete store. The record \<open>abc,2,1000\<close> is read at time 1000 with a
  maximum age of 10: its first field does not parse as a number, and the read still
  returns a position, whose latitude is \<open>NaN\<close>.
\<close>

theorem cache_read_keeps_unparsed_latitude:
  "Number_at Number_string (split_comma (ascii ''abc,2,1000'')) 0 = NaN \<and>
   getPositionFromLocalStorage Number_string
     (Map.empty(storage_key \<mapsto> ascii ''abc,2,1000'')) 1000 10 =
     Some \<lparr>latitude = VNum NaN, longitude = VNum (Fin 2)\<rparr>"
  by code_simp

text \<open>
  Claim C4, as the code has it, for every conversion \<open>num\<close> of a string to a number.
  The read returns nothing when there is no stored record or the stored string is empty,
  when the third field (the timestamp) converts to \<open>NaN\<close>, and when the age
  \<open>Date.now() - timeStamp\<close> is not at most the maximum age; for a timestamp that is an
  integer time, that is when \<open>now - t\<close> is greater than the maximum age. In every other
  case it returns the position made of the first two fields converted, which are not
  checked: a first field that converts to \<open>NaN\<close> gives the latitude \<open>NaN\<close>. Both
  coordinates of a returned position have type number.
\<close>

theorem cache_read_absent:
  "(ls storage_key = None \<or> ls storage_key = Some [] \<longrightarrow>
      getPositionFromLocalStorage num ls now m = None) \<and>
   (ls storage_key = Some s \<and> Number_at num (split_comma s) 2 = NaN \<longrightarrow>
      getPositionFromLocalStorage num ls now m = None) \<and>
   (ls storage_key = Some s \<and>
    \<not> le_num (sub_num (Fin (of_int now)) (Number_at num (split_comma s) 2)) (Fin (of_int m)) \<longrightarrow>
      getPositionFromLocalStorage num ls now m = None) \<and>
   (ls storage_key = Some s \<and> Number_at num (split_comma s) 2 = Fin (of_int t) \<and>
    0 \<le> t \<and> t < 2 ^ 53 \<and> 0 \<le> now \<and> now < 2 ^ 53 \<and> m < now - t \<longrightarrow>
      getPositionFromLocalStorage num ls now m = None) \<and>
   (ls storage_key = Some s \<and> s \<noteq> [] \<and>
    le_num (sub_num (Fin (of_int now)) (Number_at num (split_comma s) 2)) (Fin (of_int m)) \<longrightarrow>
      getPositionFromLocalStorage num ls now m =
        Some \<lparr>latitude = VNum (Number_at num (split_comma s) 0),
              longitude = VNum (Number_at num (split_comma s) 1)\<rparr>) \<and>
   (ls storage_key = Some s \<and> s \<noteq> [] \<and>
    le_num (sub_num (Fin (of_int now)) (Number_at num (split_comma s) 2)) (Fin (of_int m)) \<and>
    Number_at num (split_comma s) 0 = NaN \<longrightarrow>
      map_option latitude (getPositionFromLocalStorage num ls now m) = Some (VNum NaN)) \<and>
   (getPositionFromLocalStorage num ls now m = Some pos \<longrightarrow>
      typeof (latitude pos) = ''number'' \<and> typeof (longitude pos) = ''number'')"
proof (intro conjI impI)
  assume "ls storage_key = None \<or> ls storage_key = Some []"
  then show "getPositionFromLocalStorage num ls now m = None" by (rule cache_read_no_record)
next
  assume "ls storage_key = Some s \<and> Number_at num (split_comma s) 2 = NaN"
  then show "getPositionFromLocalStorage num ls now m = None"
    by (simp add: getPositionFromLocalStorage_def Let_def)
next
  assume "ls storage_key = Some s \<and>
    \<not> le_num (sub_num (Fin (of_int now)) (Number_at num (split_comma s) 2)) (Fin (of_int m))"
  then show "getPositionFromLocalStorage num ls now m = None"
    by (simp add: getPositionFromLocalStorage_def Let_def)
next
  assume a: "ls storage_key = Some s \<and> Number_at num (split_comma s) 2 = Fin (of_int t) \<and>
    0 \<le> t \<and> t < 2 ^ 53 \<and> 0 \<le> now \<and> now < 2 ^ 53 \<and> m < now - t"
  show "getPositionFromLocalStorage num ls now m = None"
  proof (cases "s = []")
    case True
    with a show ?thesis by (simp add: cache_read_no_record)
  next
    case False
    with a show ?thesis
      using cache_read_int [where ls = ls and s = s and num = num and t = t and now = now]
      by simp
  qed
next
  assume "ls storage_key = Some s \<and> s \<noteq> [] \<and>
    le_num (sub_num (Fin (of_int now)) (Number_at num (split_comma s) 2)) (Fin (of_int m))"
  then show "getPositionFromLocalStorage num ls now m =
        Some \<lparr>latitude = VNum (Number_at num (split_comma s) 0),
              longitude = VNum (Number_at num (split_comma s) 1)\<rparr>"
    using cache_read_record [where ls = ls and s = s] by simp
next
  assume "ls storage_key = Some s \<and> s \<noteq> [] \<and>
    le_num (sub_num (Fin (of_int now)) (Number_at num (split_comma s) 2)) (Fin (of_int m)) \<and>
    Number_at num (split_comma s) 0 = NaN"
  then show "map_option latitude (getPositionFromLocalStorage num ls now m) = Some (VNum NaN)"
    using cache_read_record [where ls = ls and s = s] by simp
next
  assume "getPositionFromLocalStorage num ls now m = Some pos"
  then show "typeof (latitude pos) = ''number''"
    by (auto simp: getPositionFromLocalStorage_def Let_def split: option.splits if_splits)
next
  assume "getPositionFromLocalStorage num ls now m = Some pos"
  then show "typeof (longitude pos) = ''number''"
    by (auto simp: getPositionFromLocalStorage_def Let_def split: option.splits if_splits)
qed

text \<open>
  The parts of the theorem on concrete stores, read at time 1000 with maximum age 10 and
  the conversion of the language.
\<close>

theorem cache_read_absent_witness:
  "getPositionFromLocalStorage Number_string Map.empty 1000 10 = None \<and>
   getPositionFromLocalStorage Number_string
     (Map.empty(storage_key \<mapsto> ascii ''1,2,soon'')) 1000 10 = None \<and>
   getPositionFromLocalStorage Number_string
     (Map.empty(storage_key \<mapsto> ascii ''1,2,900.5'')) 1000 10 = None \<and>
   getPositionFromLocalStorage Number_string
     (Map.empty(storage_key \<mapsto> ascii ''1,2,900'')) 1000 10 = None \<and>
   getPositionFromLocalStorage Number_string
     (Map.empty(storage_key \<mapsto> ascii ''1,2,990'')) 1000 10 =
     Some \<lparr>latitude = VNum (Fin 1), longitude = VNum (Fin 2)\<rparr> \<and>
   map_option latitude (getPositionFromLocalStorage Number_string
     (Map.empty(storage_key \<mapsto> ascii ''x,2,990'')) 1000 10) = Some (VNum NaN) \<and>
   map_option (\<lambda>pos. (typeof (latitude pos), typeof (longitude pos)))
     (getPositionFromLocalStorage Number_string
        (Map.empty(storage_key \<mapsto> ascii ''x,2,990'')) 1000 10) =
     Some (''number'', ''number'')"
proof -
  let ?N = Number_string
  let ?p = "\<lparr>latitude = VNum NaN, longitude = VNum (Fin 2)\<rparr>"
  have 1: "getPositionFromLocalStorage ?N Map.empty 1000 10 = None"
  proof -
    have "Map.empty storage_key = (None :: jsstring option)" by simp
    then show ?thesis
      using cache_read_absent [where ls = Map.empty and num = ?N and now = 1000 and m = 10]
      by blast
  qed
  have 2: "getPositionFromLocalStorage ?N (Map.empty(storage_key \<mapsto> ascii ''1,2,soon'')) 1000 10 = None"
  proof -
    have "(Map.empty(storage_key \<mapsto> ascii ''1,2,soon'')) storage_key = Some (ascii ''1,2,soon'')"
      by simp
    moreover have "Number_at ?N (split_comma (ascii ''1,2,soon'')) 2 = NaN" by code_simp
    ultimately show ?thesis
      using cache_read_absent [where ls = "Map.empty(storage_key \<mapsto> ascii ''1,2,soon'')"
          and s = "ascii ''1,2,soon''" and num = ?N and now = 1000 and m = 10]
      by blast
  qed
  have 3: "getPositionFromLocalStorage ?N (Map.empty(storage_key \<mapsto> ascii ''1,2,900.5'')) 1000 10 = None"
  proof -
    have "(Map.empty(storage_key \<mapsto> ascii ''1,2,900.5'')) storage_key = Some (ascii ''1,2,900.5'')"
      by simp
    moreover have "\<not> le_num (sub_num (Fin (of_int 1000))
        (Number_at ?N (split_comma (ascii ''1,2,900.5'')) 2)) (Fin (of_int 10))"
      by code_simp
    ultimately show ?thesis
      using cache_read_absent [where ls = "Map.empty(storage_key \<mapsto> ascii ''1,2,900.5'')"
          and s = "ascii ''1,2,900.5''" and num = ?N and now = 1000 and m = 10]
      by blast
  qed
  have 4: "getPositionFromLocalStorage ?N (Map.empty(storage_key \<mapsto> ascii ''1,2,900'')) 1000 10 = None"
  proof -
    have "(Map.empty(storage_key \<mapsto> ascii ''1,2,900'')) storage_key = Some (ascii ''1,2,900'')"
      by simp
    moreover have "Number_at ?N (split_comma (ascii ''1,2,900'')) 2 = Fin (of_int 900)"
      by code_simp
    moreover have "(0::int) \<le> 900 \<and> (900::int) < 2 ^ 53 \<and> (0::int) \<le> 1000 \<and>
        (1000::int) < 2 ^ 53 \<and> (10::int) < 1000 - 900"
      by simp
    ultimately show ?thesis
      using cache_read_absent [where ls = "Map.empty(storage_key \<mapsto> ascii ''1,2,900'')"
          and s = "ascii ''1,2,900''" and num = ?N and t = 900 and now = 1000 and m = 10]
      by blast
  qed
  have 5: "getPositionFromLocalStorage ?N (Map.empty(storage_key \<mapsto> ascii ''1,2,990'')) 1000 10 =
      Some \<lparr>latitude = VNum (Fin 1), longitude = VNum (Fin 2)\<rparr>"
  proof -
    have "(Map.empty(storage_key \<mapsto> ascii ''1,2,990'')) storage_key = Some (ascii ''1,2,990'')"
      by simp
    moreover have "ascii ''1,2,990'' \<noteq> []" by (simp add: ascii_def)
    moreover have "le_num (sub_num (Fin (of_int 1000))
        (Number_at ?N (split_comma (ascii ''1,2,990'')) 2)) (Fin (of_int 10))"
      by code_simp
    ultimately have "getPositionFromLocalStorage ?N
        (Map.empty(storage_key \<mapsto> ascii ''1,2,990'')) 1000 10 =
        Some \<lparr>latitude = VNum (Number_at ?N (split_comma (ascii ''1,2,990'')) 0),
              longitude = VNum (Number_at ?N (split_comma (ascii ''1,2,990'')) 1)\<rparr>"
      using cache_read_absent [where ls = "Map.empty(storage_key \<mapsto> ascii ''1,2,990'')"
          and s = "ascii ''1,2,990''" and num = ?N and now = 1000 and m = 10]
      by blast
    moreover have "Number_at ?N (split_comma (ascii ''1,2,990'')) 0 = Fin 1" by code_simp
    moreover have "Number_at ?N (split_comma (ascii ''1,2,990'')) 1 = Fin 2" by code_simp
    ultimately show ?thesis by (simp only:)
  qed
  have x: "(Map.empty(storage_key \<mapsto> ascii ''x,2,990'')) storage_key = Some (ascii ''x,2,990'')"
    by simp
  have 6: "map_option latitude (getPositionFromLocalStorage ?N
      (Map.empty(storage_key \<mapsto> ascii ''x,2,990'')) 1000 10) = Some (VNum NaN)"
  proof -
    have "ascii ''x,2,990'' \<noteq> []" by (simp add: ascii_def)
    moreover have "le_num (sub_num (Fin (of_int 1000))
        (Number_at ?N (split_comma (ascii ''x,2,990'')) 2)) (Fin (of_int 10))"
      by code_simp
    moreover have "Number_at ?N (split_comma (ascii ''x,2,990'')) 0 = NaN" by code_simp
    ultimately show ?thesis
      using x cache_read_absent [where ls = "Map.empty(storage_key \<mapsto> ascii ''x,2,990'')"
          and s = "ascii ''x,2,990''" and num = ?N and now = 1000 and m = 10]
      by blast
  qed
  have 7: "map_option (\<lambda>pos. (typeof (latitude pos), typeof (longitude pos)))
     (getPositionFromLocalStorage ?N (Map.empty(storage_key \<mapsto> ascii ''x,2,990'')) 1000 10) =
     Some (''number'', ''number'')"
  proof -
    have d: "getPositionFromLocalStorage ?N (Map.empty(storage_key \<mapsto> ascii ''x,2,990'')) 1000 10 =
        Some ?p"
      by code_simp
    then have "typeof (latitude ?p) = ''number'' \<and> typeof (longitude ?p) = ''number''"
      using cache_read_absent [where ls = "Map.empty(storage_key \<mapsto> ascii ''x,2,990'')"
          and num = ?N and pos = ?p and now = 1000 and m = 10]
      by blast
    with d show ?thesis by simp
  qed
  show ?thesis using 1 2 3 4 5 6 7 by blast
qed

section \<open>The cache shortcut and its boundary\<close>

text \<open>
  Claim C5. Let the store hold a record, and let \<open>m\<close> be the maximum age in force: the
  option of the call when it is given and not 0, and the instance's when the call gives
  none. For a timestamp \<open>t\<close> and a clock reading \<open>now\<close> that are times as \<open>Date.now()\<close>
  gives them (integers from 0, below \<open>2 ^ 53\<close>): when \<open>now - t\<close> is at most \<open>m\<close>, the
  boundary included, the call invokes the completion callback with no error and the
  cached position, and does nothing else, so no provider is contacted; when \<open>now - t\<close> is
  greater than \<open>m\<close>, the cache is bypassed, the call is the provider chain on the
  instance's list, and the first provider of that list is the first one contacted. For any
  timestamp the same holds of the age \<open>Date.now() - timeStamp\<close> as the language computes
  it.
\<close>

theorem cached_record_age_boundary:
  assumes "ls storage_key = Some s" and "s \<noteq> []"
    and "m = or_else (opt_maximumAge (options_of arg)) (maximumAge this)"
  shows "(Number_at num (split_comma s) 2 = Fin (of_int t) \<and>
          0 \<le> t \<and> t < 2 ^ 53 \<and> 0 \<le> now \<and> now < 2 ^ 53 \<and> now - t \<le> m \<longrightarrow>
            getPosition num ts env ls now this arg =
              (Returned, [Completed None
                 (Some \<lparr>latitude = VNum (Number_at num (split_comma s) 0),
                        longitude = VNum (Number_at num (split_comma s) 1)\<rparr>)])) \<and>
         (Number_at num (split_comma s) 2 = Fin (of_int t) \<and>
          0 \<le> t \<and> t < 2 ^ 53 \<and> 0 \<le> now \<and> now < 2 ^ 53 \<and> m < now - t \<longrightarrow>
            getPosition num ts env ls now this arg =
              getPosition_inner ts env
                (or_else (opt_providerTimeout (options_of arg)) (providerTimeout this))
                (providers this) \<and>
            take 1 (contacts (snd (getPosition num ts env ls now this arg))) =
              take 1 (providers this)) \<and>
         (le_num (sub_num (Fin (of_int now)) (Number_at num (split_comma s) 2))
            (Fin (of_int m)) \<longrightarrow>
            getPosition num ts env ls now this arg =
              (Returned, [Completed None
                 (Some \<lparr>latitude = VNum (Number_at num (split_comma s) 0),
                        longitude = VNum (Number_at num (split_comma s) 1)\<rparr>)])) \<and>
         (\<not> le_num (sub_num (Fin (of_int now)) (Number_at num (split_comma s) 2))
              (Fin (of_int m)) \<longrightarrow>
            getPosition num ts env ls now this arg =
              getPosition_inner ts env
                (or_else (opt_providerTimeout (options_of arg)) (providerTimeout this))
                (providers this) \<and>
            take 1 (contacts (snd (getPosition num ts env ls now this arg))) =
              take 1 (providers this)) \<and>
         (opt_maximumAge (options_of arg) = Some c \<and> c \<noteq> 0 \<longrightarrow> m = c) \<and>
         (opt_maximumAge (options_of arg) = None \<longrightarrow> m = maximumAge this)"
proof -
  let ?pos = "\<lparr>latitude = VNum (Number_at num (split_comma s) 0),
               longitude = VNum (Number_at num (split_comma s) 1)\<rparr>"
  let ?age_ok = "le_num (sub_num (Fin (of_int now)) (Number_at num (split_comma s) 2))
                   (Fin (of_int m))"
  note rd = cache_read_record [where ls = ls and s = s and num = num and now = now
      and m = m, OF assms(1,2)]
  have served: "getPosition num ts env ls now this arg = (Returned, [Completed None (Some ?pos)])"
    if "?age_ok"
  proof -
    have "getPositionFromLocalStorage num ls now
            (or_else (opt_maximumAge (options_of arg)) (maximumAge this)) = Some ?pos"
      using rd that assms(3) by simp
    then show ?thesis by (rule getPosition_hit)
  qed
  have bypass: "getPosition num ts env ls now this arg =
              getPosition_inner ts env
                (or_else (opt_providerTimeout (options_of arg)) (providerTimeout this))
                (providers this) \<and>
            take 1 (contacts (snd (getPosition num ts env ls now this arg))) =
              take 1 (providers this)"
    if "\<not> ?age_ok"
  proof -
    have "getPositionFromLocalStorage num ls now
            (or_else (opt_maximumAge (options_of arg)) (maximumAge this)) = None"
      using rd that assms(3) by simp
    then have inner: "getPosition num ts env ls now this arg =
              getPosition_inner ts env
                (or_else (opt_providerTimeout (options_of arg)) (providerTimeout this))
                (providers this)"
      by (rule getPosition_miss)
    then show ?thesis by (simp only: take1_contacts_inner)
  qed
  have int_age: "?age_ok = (now - t \<le> m)"
    if "Number_at num (split_comma s) 2 = Fin (of_int t)" and "0 \<le> t" and "t < 2 ^ 53"
      and "0 \<le> now" and "now < 2 ^ 53"
  proof -
    have e: "(rat_of_int now - rat_of_int t \<le> rat_of_int m) = (now - t \<le> m)"
      by (simp only: of_int_diff [symmetric] of_int_le_iff)
    show ?thesis using that(1) age_int [OF that(2-5)] by (simp add: e)
  qed
  have m1: "opt_maximumAge (options_of arg) = Some c \<and> c \<noteq> 0 \<longrightarrow> m = c"
    using assms(3) by (simp add: or_else_def)
  have m2: "opt_maximumAge (options_of arg) = None \<longrightarrow> m = maximumAge this"
    using assms(3) by (simp add: or_else_def)
  show ?thesis using served bypass int_age m1 m2 by (intro conjI impI) auto
qed

text \<open>
  A record written at 990 and a maximum age of 10: read at 1000 (age 10) it is served
  from the cache; read at 1001 the provider \<open>ip\<close> is contacted. A record whose timestamp
  is written \<open>989.9999999999999999\<close> converts to 990 and is served at 1000 as well.
\<close>

theorem cached_record_age_boundary_witness:
  "getPosition Number_string decimal_toString example_env
     (Map.empty(storage_key \<mapsto> ascii ''1,2,990'')) 1000 (GeoLoc_use [] [''ip''])
     (WithOptions \<lparr>opt_providerTimeout = None, opt_maximumAge = Some 10, opt_providers = None\<rparr>) =
     (Returned, [Completed None (Some \<lparr>latitude = VNum (Fin 1), longitude = VNum (Fin 2)\<rparr>)]) \<and>
   take 1 (contacts (snd (getPosition Number_string decimal_toString example_env
     (Map.empty(storage_key \<mapsto> ascii ''1,2,990'')) 1001 (GeoLoc_use [] [''ip''])
     (WithOptions \<lparr>opt_providerTimeout = None, opt_maximumAge = Some 10, opt_providers = None\<rparr>)))) =
     [''ip''] \<and>
   getPosition Number_string decimal_toString example_env
     (Map.empty(storage_key \<mapsto> ascii ''1,2,990'')) 1001 (GeoLoc_use [] [''ip''])
     (WithOptions \<lparr>opt_providerTimeout = None, opt_maximumAge = Some 10, opt_providers = None\<rparr>) =
     getPosition_inner decimal_toString example_env 10000 [''ip''] \<and>
   or_else (opt_maximumAge (options_of
     (WithOptions \<lparr>opt_providerTimeout = None, opt_maximumAge = Some 10, opt_providers = None\<rparr>)))
     (maximumAge (GeoLoc_use [] [''ip''])) = 10 \<and>
   getPosition Number_string decimal_toString example_env
     (Map.empty(storage_key \<mapsto> ascii ''1,2,989.9999999999999999'')) 1000 (GeoLoc_use [] [''ip''])
     (WithOptions \<lparr>opt_providerTimeout = None, opt_maximumAge = Some 10, opt_providers = None\<rparr>) =
     (Returned, [Completed None (Some \<lparr>latitude = VNum (Fin 1), longitude = VNum (Fin 2)\<rparr>)])"
proof -
  let ?ls = "Map.empty(storage_key \<mapsto> ascii ''1,2,990'')"
  let ?s = "ascii ''1,2,990''"
  let ?arg = "WithOptions \<lparr>opt_providerTimeout = None, opt_maximumAge = Some 10, opt_providers = None\<rparr>"
  let ?g = "GeoLoc_use [] [''ip'']"
  have h1: "?ls storage_key = Some ?s" by simp
  have h2: "?s \<noteq> []" by (simp add: ascii_def)
  have h3: "10 = or_else (opt_maximumAge (options_of ?arg)) (maximumAge ?g)"
    by (simp add: or_else_def options_of_def)
  have f0: "Number_at Number_string (split_comma ?s) 0 = Fin 1" by code_simp
  have f1: "Number_at Number_string (split_comma ?s) 1 = Fin 2" by code_simp
  have f2: "Number_at Number_string (split_comma ?s) 2 = Fin (of_int 990)" by code_simp
  note T = cached_record_age_boundary [where ls = ?ls and s = ?s and num = Number_string
      and ts = decimal_toString and env = example_env and t = 990 and c = 10, OF h1 h2 h3]
  have a: "getPosition Number_string decimal_toString example_env ?ls 1000 ?g ?arg =
     (Returned, [Completed None (Some \<lparr>latitude = VNum (Fin 1), longitude = VNum (Fin 2)\<rparr>)])"
  proof -
    have "(0::int) \<le> 990 \<and> (990::int) < 2 ^ 53 \<and> (0::int) \<le> 1000 \<and> (1000::int) < 2 ^ 53 \<and>
        (1000::int) - 990 \<le> 10" by simp
    with T [where now = 1000] f2
    have "getPosition Number_string decimal_toString example_env ?ls 1000 ?g ?arg =
            (Returned, [Completed None
               (Some \<lparr>latitude = VNum (Number_at Number_string (split_comma ?s) 0),
                      longitude = VNum (Number_at Number_string (split_comma ?s) 1)\<rparr>)])"
      by blast
    then show ?thesis by (simp only: f0 f1)
  qed
  have old: "(0::int) \<le> 990 \<and> (990::int) < 2 ^ 53 \<and> (0::int) \<le> 1001 \<and> (1001::int) < 2 ^ 53 \<and>
        (10::int) < 1001 - 990" by simp
  have b: "take 1 (contacts (snd (getPosition Number_string decimal_toString example_env ?ls 1001
              ?g ?arg))) = [''ip'']"
  proof -
    from T [where now = 1001] f2 old
    have "take 1 (contacts (snd (getPosition Number_string decimal_toString example_env ?ls 1001
              ?g ?arg))) = take 1 (providers ?g)"
      by blast
    also have "\<dots> = [''ip'']" by (simp add: GeoLoc_use_fields)
    finally show ?thesis .
  qed
  have c: "getPosition Number_string decimal_toString example_env ?ls 1001 ?g ?arg =
             getPosition_inner decimal_toString example_env 10000 [''ip'']"
  proof -
    from T [where now = 1001] f2 old
    have "getPosition Number_string decimal_toString example_env ?ls 1001 ?g ?arg =
            getPosition_inner decimal_toString example_env
              (or_else (opt_providerTimeout (options_of ?arg)) (providerTimeout ?g)) (providers ?g)"
      by blast
    also have "or_else (opt_providerTimeout (options_of ?arg)) (providerTimeout ?g) = 10000"
      by (simp add: or_else_def options_of_def GeoLoc_use_fields)
    also have "providers ?g = [''ip'']" by (simp add: GeoLoc_use_fields)
    finally show ?thesis .
  qed
  have "opt_maximumAge (options_of ?arg) = Some 10 \<and> (10::int) \<noteq> 0"
    by (simp add: options_of_def)
  with T [where now = 1000]
  have d: "or_else (opt_maximumAge (options_of ?arg)) (maximumAge ?g) = 10"
    using h3 by simp
  have e: "getPosition Number_string decimal_toString example_env
      (Map.empty(storage_key \<mapsto> ascii ''1,2,989.9999999999999999'')) 1000 ?g ?arg =
     (Returned, [Completed None (Some \<lparr>latitude = VNum (Fin 1), longitude = VNum (Fin 2)\<rparr>)])"
  proof -
    let ?r = "ascii ''1,2,989.9999999999999999''"
    let ?rs = "Map.empty(storage_key \<mapsto> ?r)"
    have r1: "?rs storage_key = Some ?r" by simp
    have r2: "?r \<noteq> []" by (simp add: ascii_def)
    have g0: "Number_at Number_string (split_comma ?r) 0 = Fin 1" by code_simp
    have g1: "Number_at Number_string (split_comma ?r) 1 = Fin 2" by code_simp
    have g2: "Number_at Number_string (split_comma ?r) 2 = Fin (of_int 990)" by code_simp
    have "(0::int) \<le> 990 \<and> (990::int) < 2 ^ 53 \<and> (0::int) \<le> 1000 \<and> (1000::int) < 2 ^ 53 \<and>
        (1000::int) - 990 \<le> 10" by simp
    with cached_record_age_boundary [where ls = ?rs and s = ?r and num = Number_string
        and ts = decimal_toString and env = example_env and t = 990 and now = 1000,
        OF r1 r2 h3] g2
    have "getPosition Number_string decimal_toString example_env ?rs 1000 ?g ?arg =
            (Returned, [Completed None
               (Some \<lparr>latitude = VNum (Number_at Number_string (split_comma ?r) 0),
                      longitude = VNum (Number_at Number_string (split_comma ?r) 1)\<rparr>)])"
      by blast
    then show ?thesis by (simp only: g0 g1)
  qed
  show ?thesis using a b c d e by blast
qed

section \<open>The sequential strategy: which list is iterated\<close>

text \<open>
  Claim C1, at a concrete call. The instance holds the provider list \<open>[A]\<close> and the call
  passes \<open>providers: [B]\<close>; the store is empty and every provider fails. The call
  contacts \<open>A\<close> and never \<open>B\<close>: the inner function is started on a copy of
  \<open>this.providers\<close>, not of the list chosen from the options.
\<close>

theorem getPosition_ignores_providers_option:
  "getPosition Number_string decimal_toString (\<lambda>p. Some (Fails (ProviderError ''denied''), 5))
     Map.empty 0
     \<lparr>providerTimeout = 10000, maximumAge = 86400000, providers = [''A'']\<rparr>
     (WithOptions \<lparr>opt_providerTimeout = None, opt_maximumAge = None,
                   opt_providers = Some [''B'']\<rparr>) =
   (Returned, [Contacted ''A'' 10000, Replied ''A'' (Fails (ProviderError ''denied'')),
               Completed (Some (ProviderError ''denied'')) None])"
  by code_simp

text \<open>
  Claim C3, at a concrete call. With an empty provider list and an empty store,
  \<open>getPosition\<close> throws a \<open>TypeError\<close> and the completion callback is never invoked.
\<close>

theorem getPosition_throws_without_providers:
  "getPosition Number_string decimal_toString (\<lambda>p. None) Map.empty 0
     \<lparr>providerTimeout = 10000, maximumAge = 86400000, providers = []\<rparr> CallbackOnly =
   (Threw (TypeError ''Cannot read properties of undefined''), [])"
  by code_simp

section \<open>The sequential strategy: order, fallback, success\<close>

text \<open>
  Claim C6. On a cache miss the providers contacted are an initial part of the list, in
  the order of the list, and the trace is serial: a provider is contacted only after the
  one before it has called back. A provider error with providers remaining continues with
  the remaining queue; when every provider of the list fails, the completion callback is
  invoked once, with the error of the last provider and no position, and that is the end
  of the trace.
\<close>

theorem providers_tried_in_order:
  assumes miss: "getPositionFromLocalStorage num ls now
                   (or_else (opt_maximumAge (options_of arg)) (maximumAge this)) = None"
    and timeout: "timeout = or_else (opt_providerTimeout (options_of arg)) (providerTimeout this)"
  shows "prefix (contacts (snd (getPosition num ts env ls now this arg))) (providers this) \<and>
         serial (snd (getPosition num ts env ls now this arg)) \<and>
         (env p = Some (Fails err, t) \<and> rest \<noteq> [] \<longrightarrow>
            getPosition_inner ts env timeout (p # rest) =
              after [Contacted p timeout, Replied p (Fails err)]
                (getPosition_inner ts env timeout rest)) \<and>
         (providers this = pre @ [p] \<and> (\<forall>q\<in>set pre. fails env q) \<and>
          env p = Some (Fails err, t) \<longrightarrow>
            getPosition num ts env ls now this arg =
              (Returned, concat (map (attempt env timeout) pre) @
                 [Contacted p timeout, Replied p (Fails err), Completed (Some err) None]))"
proof -
  have inner: "getPosition num ts env ls now this arg =
                 getPosition_inner ts env timeout (providers this)"
    using getPosition_miss [OF miss] timeout by simp
  have a: "prefix (contacts (snd (getPosition num ts env ls now this arg))) (providers this)"
    by (simp only: inner contacts_inner)
  have b: "serial (snd (getPosition num ts env ls now this arg))"
    by (simp only: inner serial_inner)
  have c: "env p = Some (Fails err, t) \<and> rest \<noteq> [] \<longrightarrow>
            getPosition_inner ts env timeout (p # rest) =
              after [Contacted p timeout, Replied p (Fails err)]
                (getPosition_inner ts env timeout rest)"
    by simp
  have d: "getPosition num ts env ls now this arg =
              (Returned, concat (map (attempt env timeout) pre) @
                 [Contacted p timeout, Replied p (Fails err), Completed (Some err) None])"
    if ps: "providers this = pre @ [p]" and pre: "\<forall>q\<in>set pre. fails env q"
      and p: "env p = Some (Fails err, t)"
  proof -
    have "getPosition_inner ts env timeout (pre @ [p]) =
            after (concat (map (attempt env timeout) pre)) (getPosition_inner ts env timeout [p])"
      using pre by (intro inner_after_failures) auto
    then show ?thesis using p by (simp add: inner ps after_def)
  qed
  show ?thesis using a b c d by blast
qed

text \<open>The list \<open>[gps, wifi]\<close>, both failing: \<open>gps\<close> first, then \<open>wifi\<close>, whose error is delivered.\<close>

theorem providers_tried_in_order_witness:
  "prefix (contacts (snd (getPosition Number_string decimal_toString example_env Map.empty 0
             (GeoLoc_use [] [''gps'', ''wifi'']) CallbackOnly))) [''gps'', ''wifi''] \<and>
   serial (snd (getPosition Number_string decimal_toString example_env Map.empty 0
             (GeoLoc_use [] [''gps'', ''wifi'']) CallbackOnly)) \<and>
   getPosition_inner decimal_toString example_env 10000 [''wifi'', ''ip''] =
     after [Contacted ''wifi'' 10000, Replied ''wifi'' (Fails (ProviderError ''timeout''))]
       (getPosition_inner decimal_toString example_env 10000 [''ip'']) \<and>
   getPosition Number_string decimal_toString example_env Map.empty 0
     (GeoLoc_use [] [''gps'', ''wifi'']) CallbackOnly =
     (Returned, [Contacted ''gps'' 10000, Replied ''gps'' (Fails (ProviderError ''denied'')),
                 Contacted ''wifi'' 10000, Replied ''wifi'' (Fails (ProviderError ''timeout'')),
                 Completed (Some (ProviderError ''timeout'')) None])"
proof -
  let ?g = "GeoLoc_use [] [''gps'', ''wifi'']"
  have miss: "getPositionFromLocalStorage Number_string Map.empty 0
                (or_else (opt_maximumAge (options_of CallbackOnly)) (maximumAge ?g)) = None"
    by (rule empty_store_misses)
  have timeout: "10000 = or_else (opt_providerTimeout (options_of CallbackOnly)) (providerTimeout ?g)"
    by (simp add: CallbackOnly_defaults GeoLoc_use_fields)
  have p: "example_env ''wifi'' = Some (Fails (ProviderError ''timeout''), 120)"
    by (simp add: example_env_def)
  have pre: "\<forall>q\<in>set [''gps'']. fails example_env q"
    by (simp add: fails_def example_env_def)
  have ps: "providers ?g = [''gps''] @ [''wifi'']" by (simp add: GeoLoc_use_fields)
  have rest: "[''ip''] \<noteq> []" by simp
  have att: "concat (map (attempt example_env 10000) [''gps'']) =
               [Contacted ''gps'' 10000, Replied ''gps'' (Fails (ProviderError ''denied''))]"
    by (simp add: attempt_def example_env_def)
  show ?thesis
    using providers_tried_in_order [OF miss timeout, where ts = decimal_toString
        and env = example_env and p = "''wifi''" and err = "ProviderError ''timeout''"
        and t = 120 and rest = "[''ip'']" and pre = "[''gps'']"]
      p pre ps rest att
    by (simp add: GeoLoc_use_fields)
qed

text \<open>
  Claim C7. When the providers before \<open>p\<close> fail or yield malformed data and \<open>p\<close> yields a
  well-formed position, the trace ends with the write of the cache record followed by the
  completion callback with no error and that position. The record ends with the time at
  which the provider called back. The providers after \<open>p\<close> are not contacted.
\<close>

theorem first_success_is_cached_then_delivered:
  assumes miss: "getPositionFromLocalStorage num ls now
                   (or_else (opt_maximumAge (options_of arg)) (maximumAge this)) = None"
    and timeout: "timeout = or_else (opt_providerTimeout (options_of arg)) (providerTimeout this)"
    and ps: "providers this = pre @ p # post"
    and pre: "\<forall>q\<in>set pre. fails env q \<or> yields_malformed env q"
    and p: "env p = Some (Yields data, t)"
    and ok: "\<not> malformed data"
  shows "getPosition num ts env ls now this arg =
           (Returned, concat (map (attempt env timeout) pre) @
              [Contacted p timeout, Replied p (Yields data),
               SetItem storage_key (cache_record ts data t),
               Completed None (Some data)]) \<and>
         contacts (snd (getPosition num ts env ls now this arg)) = pre @ [p] \<and>
         store_after (snd (getPosition num ts env ls now this arg)) ls =
           ls(storage_key \<mapsto> cache_record ts data t) \<and>
         cache_record ts data t =
           join_element ts (latitude data) @ ascii '','' @ join_element ts (longitude data) @
           ascii '','' @ ts (Fin (of_int t))"
proof -
  have inner: "getPosition num ts env ls now this arg =
                 getPosition_inner ts env timeout (providers this)"
    using getPosition_miss [OF miss] timeout by simp
  have "getPosition_inner ts env timeout (pre @ p # post) =
          after (concat (map (attempt env timeout) pre))
            (getPosition_inner ts env timeout (p # post))"
    using pre by (intro inner_after_failures) auto
  then have run: "getPosition num ts env ls now this arg =
           (Returned, concat (map (attempt env timeout) pre) @
              [Contacted p timeout, Replied p (Yields data),
               SetItem storage_key (cache_record ts data t),
               Completed None (Some data)])"
    using p ok by (simp add: inner ps after_def)
  have c: "contacts (snd (getPosition num ts env ls now this arg)) = pre @ [p]"
    by (simp add: run contacts_append contacts_attempts)
  have s: "store_after (snd (getPosition num ts env ls now this arg)) ls =
             ls(storage_key \<mapsto> cache_record ts data t)"
    by (simp add: run store_after_append store_after_attempts fun_upd_def)
  have r: "cache_record ts data t =
           join_element ts (latitude data) @ ascii '','' @ join_element ts (longitude data) @
           ascii '','' @ ts (Fin (of_int t))"
    by (simp add: cache_record_def join_element_def)
  show ?thesis using run c s r by blast
qed

text \<open>The list \<open>[gps, manual, ip, wifi]\<close>: \<open>ip\<close> succeeds at time 200 and \<open>wifi\<close> is never contacted.\<close>

theorem first_success_is_cached_then_delivered_witness:
  "getPosition Number_string decimal_toString example_env Map.empty 0
     (GeoLoc_use [] [''gps'', ''manual'', ''ip'', ''wifi'']) CallbackOnly =
     (Returned,
      [Contacted ''gps'' 10000, Replied ''gps'' (Fails (ProviderError ''denied'')),
       Contacted ''manual'' 10000,
       Replied ''manual'' (Yields \<lparr>latitude = VStr ''bad'', longitude = VNum (Fin 2)\<rparr>),
       Contacted ''ip'' 10000,
       Replied ''ip'' (Yields \<lparr>latitude = VNum (Fin 1), longitude = VNum (Fin 2)\<rparr>),
       SetItem (ascii ''_GeoLocData'') (ascii ''1,2,200''),
       Completed None (Some \<lparr>latitude = VNum (Fin 1), longitude = VNum (Fin 2)\<rparr>)]) \<and>
   contacts (snd (getPosition Number_string decimal_toString example_env Map.empty 0
     (GeoLoc_use [] [''gps'', ''manual'', ''ip'', ''wifi'']) CallbackOnly)) =
     [''gps'', ''manual'', ''ip''] \<and>
   store_after (snd (getPosition Number_string decimal_toString example_env Map.empty 0
     (GeoLoc_use [] [''gps'', ''manual'', ''ip'', ''wifi'']) CallbackOnly)) Map.empty =
     Map.empty(ascii ''_GeoLocData'' \<mapsto> ascii ''1,2,200'')"
proof -
  let ?g = "GeoLoc_use [] [''gps'', ''manual'', ''ip'', ''wifi'']"
  let ?d = "\<lparr>latitude = VNum (Fin 1), longitude = VNum (Fin 2)\<rparr>"
  have miss: "getPositionFromLocalStorage Number_string Map.empty 0
                (or_else (opt_maximumAge (options_of CallbackOnly)) (maximumAge ?g)) = None"
    by (rule empty_store_misses)
  have timeout: "10000 = or_else (opt_providerTimeout (options_of CallbackOnly)) (providerTimeout ?g)"
    by (simp add: CallbackOnly_defaults GeoLoc_use_fields)
  have ps: "providers ?g = [''gps'', ''manual''] @ ''ip'' # [''wifi'']"
    by (simp add: GeoLoc_use_fields)
  have pre: "\<forall>q\<in>set [''gps'', ''manual'']. fails example_env q \<or> yields_malformed example_env q"
    by (simp add: fails_def yields_malformed_def example_env_def malformed_def)
  have p: "example_env ''ip'' = Some (Yields ?d, 200)"
    by (simp add: example_env_def)
  have ok: "\<not> malformed ?d" by (simp add: malformed_def)
  have att: "concat (map (attempt example_env 10000) [''gps'', ''manual'']) =
               [Contacted ''gps'' 10000, Replied ''gps'' (Fails (ProviderError ''denied'')),
                Contacted ''manual'' 10000,
                Replied ''manual'' (Yields \<lparr>latitude = VStr ''bad'', longitude = VNum (Fin 2)\<rparr>)]"
    by (simp add: attempt_def example_env_def)
  have rec: "cache_record decimal_toString ?d 200 = ascii ''1,2,200''" by code_simp
  have key: "storage_key = ascii ''_GeoLocData''" by (simp add: storage_key_def)
  show ?thesis
    using first_success_is_cached_then_delivered [OF miss timeout ps pre p ok,
        where ts = decimal_toString]
    by (simp only: att rec key) simp
qed

text \<open>
  Claim C8. A provider that yields a position whose latitude or longitude is not of type
  number is followed, when providers remain, by the same continuation as a provider that
  fails: the inner function on the remaining queue. When it is the last provider, the
  completion callback receives the \<open>TypeError\<close> \<open>Incorrect data\<close> and no position; that
  error is none of the errors a provider passes.
\<close>

theorem malformed_result_falls_back:
  assumes miss: "getPositionFromLocalStorage num ls now
                   (or_else (opt_maximumAge (options_of arg)) (maximumAge this)) = None"
    and timeout: "timeout = or_else (opt_providerTimeout (options_of arg)) (providerTimeout this)"
    and p: "env p = Some (Yields data, t)"
    and bad: "malformed data"
  shows "(rest \<noteq> [] \<longrightarrow>
            getPosition_inner ts env timeout (p # rest) =
              after [Contacted p timeout, Replied p (Yields data)]
                (getPosition_inner ts env timeout rest)) \<and>
         (rest \<noteq> [] \<and> env p' = Some (Fails err, t') \<longrightarrow>
            getPosition_inner ts env timeout (p' # rest) =
              after [Contacted p' timeout, Replied p' (Fails err)]
                (getPosition_inner ts env timeout rest)) \<and>
         (providers this = pre @ [p] \<and> (\<forall>q\<in>set pre. fails env q \<or> yields_malformed env q) \<longrightarrow>
            getPosition num ts env ls now this arg =
              (Returned, concat (map (attempt env timeout) pre) @
                 [Contacted p timeout, Replied p (Yields data),
                  Completed (Some (TypeError ''Incorrect data'')) None])) \<and>
         (\<forall>msg. TypeError ''Incorrect data'' \<noteq> ProviderError msg)"
proof -
  have inner: "getPosition num ts env ls now this arg =
                 getPosition_inner ts env timeout (providers this)"
    using getPosition_miss [OF miss] timeout by simp
  have a: "rest \<noteq> [] \<longrightarrow>
            getPosition_inner ts env timeout (p # rest) =
              after [Contacted p timeout, Replied p (Yields data)]
                (getPosition_inner ts env timeout rest)"
    using p bad by simp
  have b: "rest \<noteq> [] \<and> env p' = Some (Fails err, t') \<longrightarrow>
            getPosition_inner ts env timeout (p' # rest) =
              after [Contacted p' timeout, Replied p' (Fails err)]
                (getPosition_inner ts env timeout rest)"
    by simp
  have c: "getPosition num ts env ls now this arg =
              (Returned, concat (map (attempt env timeout) pre) @
                 [Contacted p timeout, Replied p (Yields data),
                  Completed (Some (TypeError ''Incorrect data'')) None])"
    if ps: "providers this = pre @ [p]"
      and pre: "\<forall>q\<in>set pre. fails env q \<or> yields_malformed env q"
  proof -
    have "getPosition_inner ts env timeout (pre @ [p]) =
            after (concat (map (attempt env timeout) pre)) (getPosition_inner ts env timeout [p])"
      using pre by (intro inner_after_failures) auto
    then show ?thesis using p bad by (simp add: inner ps after_def)
  qed
  show ?thesis using a b c by blast
qed

text \<open>The provider \<open>manual\<close> before \<open>ip\<close>, the provider \<open>gps\<close> before \<open>ip\<close>, and the list \<open>[gps, manual]\<close>.\<close>

theorem malformed_result_falls_back_witness:
  "getPosition_inner decimal_toString example_env 10000 [''manual'', ''ip''] =
     after [Contacted ''manual'' 10000,
            Replied ''manual'' (Yields \<lparr>latitude = VStr ''bad'', longitude = VNum (Fin 2)\<rparr>)]
       (getPosition_inner decimal_toString example_env 10000 [''ip'']) \<and>
   getPosition_inner decimal_toString example_env 10000 [''gps'', ''ip''] =
     after [Contacted ''gps'' 10000, Replied ''gps'' (Fails (ProviderError ''denied''))]
       (getPosition_inner decimal_toString example_env 10000 [''ip'']) \<and>
   getPosition Number_string decimal_toString example_env Map.empty 0
     (GeoLoc_use [] [''gps'', ''manual'']) CallbackOnly =
     (Returned,
      [Contacted ''gps'' 10000, Replied ''gps'' (Fails (ProviderError ''denied'')),
       Contacted ''manual'' 10000,
       Replied ''manual'' (Yields \<lparr>latitude = VStr ''bad'', longitude = VNum (Fin 2)\<rparr>),
       Completed (Some (TypeError ''Incorrect data'')) None])"
proof -
  let ?g = "GeoLoc_use [] [''gps'', ''manual'']"
  let ?d = "\<lparr>latitude = VStr ''bad'', longitude = VNum (Fin 2)\<rparr>"
  have miss: "getPositionFromLocalStorage Number_string Map.empty 0
                (or_else (opt_maximumAge (options_of CallbackOnly)) (maximumAge ?g)) = None"
    by (rule empty_store_misses)
  have timeout: "10000 = or_else (opt_providerTimeout (options_of CallbackOnly)) (providerTimeout ?g)"
    by (simp add: CallbackOnly_defaults GeoLoc_use_fields)
  have p: "example_env ''manual'' = Some (Yields ?d, 150)"
    by (simp add: example_env_def)
  have bad: "malformed ?d" by (simp add: malformed_def)
  have p': "example_env ''gps'' = Some (Fails (ProviderError ''denied''), 100)"
    by (simp add: example_env_def)
  have ps: "providers ?g = [''gps''] @ [''manual'']" by (simp add: GeoLoc_use_fields)
  have pre: "\<forall>q\<in>set [''gps'']. fails example_env q \<or> yields_malformed example_env q"
    by (simp add: fails_def example_env_def)
  have rest: "[''ip''] \<noteq> []" by simp
  have att: "concat (map (attempt example_env 10000) [''gps'']) =
               [Contacted ''gps'' 10000, Replied ''gps'' (Fails (ProviderError ''denied''))]"
    by (simp add: attempt_def example_env_def)
  note T = malformed_result_falls_back [where num = Number_string and ts = decimal_toString and env = example_env
      and p = "''manual''" and rest = "[''ip'']" and p' = "''gps''"
      and err = "ProviderError ''denied''" and t' = 100 and pre = "[''gps'']",
      OF miss timeout p bad]
  have 1: "getPosition_inner decimal_toString example_env 10000 (''manual'' # [''ip'']) =
     after [Contacted ''manual'' 10000, Replied ''manual'' (Yields ?d)]
       (getPosition_inner decimal_toString example_env 10000 [''ip''])"
    using T rest by blast
  have 2: "getPosition_inner decimal_toString example_env 10000 (''gps'' # [''ip'']) =
     after [Contacted ''gps'' 10000, Replied ''gps'' (Fails (ProviderError ''denied''))]
       (getPosition_inner decimal_toString example_env 10000 [''ip''])"
    using T rest p' by blast
  have 3: "getPosition Number_string decimal_toString example_env Map.empty 0 ?g CallbackOnly =
     (Returned, concat (map (attempt example_env 10000) [''gps'']) @
        [Contacted ''manual'' 10000, Replied ''manual'' (Yields ?d),
         Completed (Some (TypeError ''Incorrect data'')) None])"
    using T ps pre by blast
  show ?thesis using 1 2 3 by (simp only: att) simp
qed

section \<open>Facts about the parallel strategy\<close>

lemma completions_append: "completions (xs @ ys) = completions xs + completions ys"
  by (simp add: completions_def)

lemma completions_aborted: "completions (map (\<lambda>q. Aborted (f q)) rs) = 0"
  by (induction rs) (auto simp: completions_def)

lemma callback_error:
  assumes "r = Fails err \<and> e = err \<or> r = Yields data \<and> malformed data \<and> e = TypeError ''Incorrect data''"
  shows "requests (snd (provider_callback ts (Some rid) r now st)) =
           filter (\<lambda>q. fst q \<noteq> rid) (requests st)"
    and "done_events (snd (provider_callback ts (Some rid) r now st)) =
           done_events st @
           (if filter (\<lambda>q. fst q \<noteq> rid) (requests st) = [] then [Completed (Some e) None] else [])"
  using assms
  by (auto simp: provider_callback_def delete_request_def hasRequests_def emit_def Let_def)

lemma callback_success:
  assumes "\<not> malformed data"
  shows "requests (snd (provider_callback ts (Some rid) (Yields data) now st)) = []"
    and "done_events (snd (provider_callback ts (Some rid) (Yields data) now st)) =
           done_events st @ map (\<lambda>q. Aborted (fst q)) (filter (\<lambda>q. fst q \<noteq> rid) (requests st)) @
           [SetItem storage_key (cache_record ts data now), Completed None (Some data)]"
  using assms
  by (auto simp: provider_callback_def delete_request_def abortAllRequests_def emit_def Let_def)

lemma callback_assigned:
  "assigned (snd (provider_callback ts req r now st)) = assigned st"
  by (auto simp: provider_callback_def delete_request_def abortAllRequests_def emit_def
      hasRequests_def Let_def split: option.splits reply.splits)

lemma callback_requests_subset:
  "set (map fst (requests (snd (provider_callback ts req r now st)))) \<subseteq>
     set (map fst (requests st))"
  by (auto simp: provider_callback_def delete_request_def abortAllRequests_def emit_def
      hasRequests_def Let_def split: option.splits reply.splits)

lemma arrive_in_flight:
  assumes "at_most_once st" and "rid \<in> set (map fst (requests st))"
  shows "arrive ts (rid, r, now) st = snd (provider_callback ts (Some rid) r now st)"
  using assms by (auto simp: arrive_def at_most_once_def)

lemma callback_keeps_at_most_once:
  assumes inv: "at_most_once st" and live: "rid \<in> set (map fst (requests st))"
  shows "at_most_once (arrive ts (rid, r, now) st)"
proof -
  let ?st' = "snd (provider_callback ts (Some rid) r now st)"
  from live have "requests st \<noteq> []" by auto
  with inv have zero: "completions (done_events st) = 0" by (simp add: at_most_once_def)
  have sub: "set (map fst (requests ?st')) \<subseteq> set (assigned ?st')"
    using inv callback_requests_subset [of ts "Some rid" r now st]
    by (simp only: callback_assigned at_most_once_def) blast
  have count: "if requests ?st' = [] then completions (done_events ?st') \<le> 1
               else completions (done_events ?st') = 0"
  proof (cases r)
    case (Fails err)
    then show ?thesis
      using zero callback_error [of r err err undefined ts rid now st]
      by (auto simp: completions_append) (simp_all add: completions_def)
  next
    case (Yields data)
    show ?thesis
    proof (cases "malformed data")
      case True
      then show ?thesis
        using zero Yields callback_error [of r undefined "TypeError ''Incorrect data''" data ts rid now st]
        by (auto simp: completions_append) (simp_all add: completions_def)
    next
      case False
      then show ?thesis
        using zero Yields callback_success [of data ts rid now st]
        by (simp add: completions_append completions_aborted) (simp add: completions_def)
    qed
  qed
  show ?thesis
    using sub count by (simp only: arrive_in_flight [OF inv live] at_most_once_def)
qed

lemma deliver_keeps_at_most_once:
  "at_most_once st \<Longrightarrow> in_flight_only ts as st \<Longrightarrow> at_most_once (deliver ts as st)"
proof (induction as arbitrary: st)
  case Nil
  then show ?case by simp
next
  case (Cons a as)
  obtain rid r now where a: "a = (rid, r, now)" by (cases a)
  with Cons show ?case by (simp add: callback_keeps_at_most_once)
qed

lemma nothing_in_flight: "requests st = [] \<Longrightarrow> in_flight_only ts as st \<Longrightarrow> as = []"
  by (cases as) auto

lemma success_completes:
  assumes "at_most_once st" and "in_flight_only ts as st"
    and "(rid, Yields data, t) \<in> set as" and "\<not> malformed data"
  shows "completions (done_events (deliver ts as st)) = 1 \<and> requests (deliver ts as st) = []"
  using assms
proof (induction as arbitrary: st)
  case Nil
  then show ?case by simp
next
  case (Cons a as)
  obtain rid' r' now' where a: "a = (rid', r', now')" by (cases a)
  let ?st' = "arrive ts (rid', r', now') st"
  from Cons.prems a have live: "rid' \<in> set (map fst (requests st))"
    and rest: "in_flight_only ts as ?st'" by auto
  from live have "requests st \<noteq> []" by auto
  with Cons.prems(1) have zero: "completions (done_events st) = 0"
    by (simp add: at_most_once_def)
  have inv': "at_most_once ?st'"
    using Cons.prems(1) live by (rule callback_keeps_at_most_once)
  have eq: "?st' = snd (provider_callback ts (Some rid') r' now' st)"
    using Cons.prems(1) live by (rule arrive_in_flight)
  show ?case
  proof (cases "\<exists>d. r' = Yields d \<and> \<not> malformed d")
    case True
    then obtain d where d: "r' = Yields d" "\<not> malformed d" by blast
    have empty: "requests ?st' = []" unfolding eq using d callback_success(1) by simp
    have "as = []" using empty rest by (rule nothing_in_flight)
    moreover have "completions (done_events ?st') = 1"
      unfolding eq using zero d callback_success(2) [of d ts rid' now' st]
      by (simp add: completions_append completions_aborted) (simp add: completions_def)
    ultimately show ?thesis using a empty by simp
  next
    case False
    with Cons.prems(3,4) a have "(rid, Yields data, t) \<in> set as" by auto
    with Cons.IH [OF inv' rest] Cons.prems(4) a show ?thesis by simp
  qed
qed

lemma setData_fresh:
  assumes "set (map fst (requests st)) \<subseteq> set (assigned st)"
    and "completions (done_events st) = 0"
  shows "set (map fst (requests (snd (setData ts sync timeout p st)))) \<subseteq>
           set (assigned (snd (setData ts sync timeout p st))) \<and>
         completions (done_events (snd (setData ts sync timeout p st))) = 0"
  using assms
  by (auto simp: setData_def provider_callback_def emit_def Let_def completions_def
      split: option.splits)

lemma start_requests_fresh:
  assumes "set (map fst (requests st)) \<subseteq> set (assigned st)"
    and "completions (done_events st) = 0"
  shows "set (map fst (requests (snd (start_requests ts sync timeout ps st)))) \<subseteq>
           set (assigned (snd (start_requests ts sync timeout ps st))) \<and>
         completions (done_events (snd (start_requests ts sync timeout ps st))) = 0"
  using assms
proof (induction ps arbitrary: st)
  case Nil
  then show ?case by simp
next
  case (Cons p ps)
  obtain out st' where s: "setData ts sync timeout p st = (out, st')"
    by (cases "setData ts sync timeout p st")
  have fresh: "set (map fst (requests st')) \<subseteq> set (assigned st') \<and>
               completions (done_events st') = 0"
    using setData_fresh [OF Cons.prems, of ts sync timeout p] s by simp
  show ?case
  proof (cases out)
    case Returned
    then show ?thesis using s fresh Cons.IH [of st'] by simp
  next
    case (Threw e)
    then show ?thesis using s fresh by simp
  qed
qed

lemma initially_at_most_once:
  "at_most_once (snd (getPositionParallel num ts sync ls now uid this arg))"
proof (cases "getPositionFromLocalStorage num ls now
                (or_else (opt_maximumAge (options_of arg)) (maximumAge this))")
  case None
  let ?start = "\<lparr>requests = [], uidCounter = uid, assigned = [], done_events = []\<rparr>"
  have "set (map fst (requests ?start)) \<subseteq> set (assigned ?start)"
    and "completions (done_events ?start) = 0"
    by (simp_all add: completions_def)
  from start_requests_fresh [OF this]
  show ?thesis using None
    by (simp add: getPositionParallel_def Let_def at_most_once_def)
next
  case (Some pos)
  then show ?thesis
    by (simp add: getPositionParallel_def Let_def at_most_once_def emit_def completions_def)
qed

section \<open>The parallel strategy: one completion\<close>

text \<open>
  Claim C2, at a concrete run. Two providers are started; \<open>ip\<close> (request 1) succeeds, so
  request 2 is aborted and the completion callback is invoked. The callback of the
  aborted request 2 then still runs, with an error: the table is empty, and the
  completion callback is invoked a second time.
\<close>

theorem late_callback_completes_again:
  "done_events
     (deliver decimal_toString
        [(1, Yields \<lparr>latitude = VNum (Fin 1), longitude = VNum (Fin 2)\<rparr>, 200),
         (2, Fails (ProviderError ''denied''), 300)]
        (snd (getPositionParallel Number_string decimal_toString nobody_at_once Map.empty 0 0
           \<lparr>providerTimeout = 10000, maximumAge = 86400000, providers = [''ip'', ''gps'']\<rparr>
           CallbackOnly))) =
     [Contacted ''ip'' 10000, Contacted ''gps'' 10000, Aborted 2,
      SetItem (ascii ''_GeoLocData'') (ascii ''1,2,200''),
      Completed None (Some \<lparr>latitude = VNum (Fin 1), longitude = VNum (Fin 2)\<rparr>),
      Completed (Some (ProviderError ''denied'')) None] \<and>
   completions (done_events
     (deliver decimal_toString
        [(1, Yields \<lparr>latitude = VNum (Fin 1), longitude = VNum (Fin 2)\<rparr>, 200),
         (2, Fails (ProviderError ''denied''), 300)]
        (snd (getPositionParallel Number_string decimal_toString nobody_at_once Map.empty 0 0
           \<lparr>providerTimeout = 10000, maximumAge = 86400000, providers = [''ip'', ''gps'']\<rparr>
           CallbackOnly)))) = 2"
  by code_simp

text \<open>
  Claim C2, as the code has it. A well-formed success empties the table, aborting every
  other request in it, writes the cache record and invokes the completion callback. As
  long as callbacks come only from requests still in the table (an aborted provider stays
  silent, and \<open>abort\<close> itself runs no callback), the completion callback is invoked at
  most once per call, and exactly once when a well-formed success is among the callbacks.
\<close>

theorem parallel_completes_once_while_aborted_stay_silent:
  assumes "in_flight_only ts as (snd (getPositionParallel num ts sync ls now uid this arg))"
  shows "completions (done_events (deliver ts as
           (snd (getPositionParallel num ts sync ls now uid this arg)))) \<le> 1 \<and>
         ((rid, Yields data, t) \<in> set as \<and> \<not> malformed data \<longrightarrow>
            completions (done_events (deliver ts as
              (snd (getPositionParallel num ts sync ls now uid this arg)))) = 1 \<and>
            requests (deliver ts as
              (snd (getPositionParallel num ts sync ls now uid this arg))) = []) \<and>
         (\<not> malformed data \<longrightarrow>
            requests (snd (provider_callback ts (Some rid) (Yields data) t st)) = [] \<and>
            done_events (snd (provider_callback ts (Some rid) (Yields data) t st)) =
              done_events st @
              map (\<lambda>q. Aborted (fst q)) (filter (\<lambda>q. fst q \<noteq> rid) (requests st)) @
              [SetItem storage_key (cache_record ts data t), Completed None (Some data)])"
proof -
  let ?start = "snd (getPositionParallel num ts sync ls now uid this arg)"
  have "at_most_once (deliver ts as ?start)"
    using initially_at_most_once assms by (rule deliver_keeps_at_most_once)
  then have a: "completions (done_events (deliver ts as ?start)) \<le> 1"
    by (simp add: at_most_once_def split: if_splits)
  have b: "(rid, Yields data, t) \<in> set as \<and> \<not> malformed data \<longrightarrow>
            completions (done_events (deliver ts as ?start)) = 1 \<and> requests (deliver ts as ?start) = []"
    using success_completes [OF initially_at_most_once assms] by blast
  have c: "\<not> malformed data \<longrightarrow>
            requests (snd (provider_callback ts (Some rid) (Yields data) t st)) = [] \<and>
            done_events (snd (provider_callback ts (Some rid) (Yields data) t st)) =
              done_events st @
              map (\<lambda>q. Aborted (fst q)) (filter (\<lambda>q. fst q \<noteq> rid) (requests st)) @
              [SetItem storage_key (cache_record ts data t), Completed None (Some data)]"
    using callback_success by blast
  show ?thesis using a b c by blast
qed

text \<open>Three providers: \<open>gps\<close> fails, then \<open>ip\<close> succeeds and \<open>wifi\<close> is aborted and stays silent.\<close>

theorem parallel_completes_once_while_aborted_stay_silent_witness:
  "in_flight_only decimal_toString
     [(1, Fails (ProviderError ''denied''), 100),
      (2, Yields \<lparr>latitude = VNum (Fin 1), longitude = VNum (Fin 2)\<rparr>, 200)]
     (snd (getPositionParallel Number_string decimal_toString nobody_at_once Map.empty 0 0
        (GeoLoc_use [] [''gps'', ''ip'', ''wifi'']) CallbackOnly)) \<and>
   completions (done_events (deliver decimal_toString
     [(1, Fails (ProviderError ''denied''), 100),
      (2, Yields \<lparr>latitude = VNum (Fin 1), longitude = VNum (Fin 2)\<rparr>, 200)]
     (snd (getPositionParallel Number_string decimal_toString nobody_at_once Map.empty 0 0
        (GeoLoc_use [] [''gps'', ''ip'', ''wifi'']) CallbackOnly)))) = 1 \<and>
   requests (deliver decimal_toString
     [(1, Fails (ProviderError ''denied''), 100),
      (2, Yields \<lparr>latitude = VNum (Fin 1), longitude = VNum (Fin 2)\<rparr>, 200)]
     (snd (getPositionParallel Number_string decimal_toString nobody_at_once Map.empty 0 0
        (GeoLoc_use [] [''gps'', ''ip'', ''wifi'']) CallbackOnly))) = [] \<and>
   done_events (snd (provider_callback decimal_toString (Some 2)
     (Yields \<lparr>latitude = VNum (Fin 1), longitude = VNum (Fin 2)\<rparr>) 200
     \<lparr>requests = [(2, ''ip''), (3, ''wifi'')], uidCounter = 3, assigned = [1, 2, 3],
      done_events = []\<rparr>)) =
     [Aborted 3, SetItem (ascii ''_GeoLocData'') (ascii ''1,2,200''),
      Completed None (Some \<lparr>latitude = VNum (Fin 1), longitude = VNum (Fin 2)\<rparr>)]"
proof -
  let ?d = "\<lparr>latitude = VNum (Fin 1), longitude = VNum (Fin 2)\<rparr>"
  let ?as = "[(1, Fails (ProviderError ''denied''), 100), (2, Yields ?d, 200)]"
  let ?g = "GeoLoc_use [] [''gps'', ''ip'', ''wifi'']"
  let ?st = "\<lparr>requests = [(2, ''ip''), (3, ''wifi'')], uidCounter = 3, assigned = [1, 2, 3],
      done_events = []\<rparr>"
  let ?start = "snd (getPositionParallel Number_string decimal_toString nobody_at_once
                Map.empty 0 0 ?g CallbackOnly)"
  have live: "in_flight_only decimal_toString ?as ?start"
    by code_simp
  have mem: "(2, Yields ?d, 200) \<in> set ?as" by simp
  have ok: "\<not> malformed ?d" by (simp add: malformed_def)
  have rec: "cache_record decimal_toString ?d 200 = ascii ''1,2,200''" by code_simp
  have key: "storage_key = ascii ''_GeoLocData''" by (simp add: storage_key_def)
  note T = parallel_completes_once_while_aborted_stay_silent [OF live,
      where rid = 2 and data = ?d and t = 200 and st = ?st]
  have 1: "completions (done_events (deliver decimal_toString ?as ?start)) = 1"
    using T mem ok by blast
  have 2: "requests (deliver decimal_toString ?as ?start) = []"
    using T mem ok by blast
  have "done_events (snd (provider_callback decimal_toString (Some 2) (Yields ?d) 200 ?st)) =
          done_events ?st @
          map (\<lambda>q. Aborted (fst q)) (filter (\<lambda>q. fst q \<noteq> 2) (requests ?st)) @
          [SetItem storage_key (cache_record decimal_toString ?d 200), Completed None (Some ?d)]"
    using T ok by blast
  then have 3: "done_events (snd (provider_callback decimal_toString (Some 2) (Yields ?d) 200 ?st)) =
          [Aborted 3, SetItem (ascii ''_GeoLocData'') (ascii ''1,2,200''), Completed None (Some ?d)]"
    by (simp only: rec key) simp
  show ?thesis using live 1 2 3 by blast
qed

section \<open>The parallel strategy: a provider that calls back at once\<close>

text \<open>
  Claim C9, at a concrete call. The only provider calls back with an error inside
  \<open>provider.getPosition\<close>. No other request is in flight, yet the completion callback is
  not invoked: the callback reads \<open>req._GeoLoc_id\<close> before \<open>req\<close> is assigned, and
  \<open>getPositionParallel\<close> throws a \<open>TypeError\<close>. The sequential \<open>getPosition\<close> with
  the same provider invokes the completion callback with the provider's error.
\<close>

theorem parallel_immediate_error_throws:
  "getPositionParallel Number_string decimal_toString
     (\<lambda>p. Some (Fails (ProviderError ''denied''), 100)) Map.empty 0 0
     \<lparr>providerTimeout = 10000, maximumAge = 86400000, providers = [''gps'']\<rparr> CallbackOnly =
     (Threw (TypeError ''Cannot read properties of undefined''),
      \<lparr>requests = [], uidCounter = 0, assigned = [],
       done_events = [Contacted ''gps'' 10000]\<rparr>) \<and>
   getPosition Number_string decimal_toString
     (\<lambda>p. Some (Fails (ProviderError ''denied''), 100)) Map.empty 0
     \<lparr>providerTimeout = 10000, maximumAge = 86400000, providers = [''gps'']\<rparr> CallbackOnly =
     (Returned, [Contacted ''gps'' 10000, Replied ''gps'' (Fails (ProviderError ''denied'')),
                 Completed (Some (ProviderError ''denied'')) None])"
  by code_simp

text \<open>
  Claim C10, at a concrete call. The only provider calls back inside
  \<open>provider.getPosition\<close> with a position whose latitude is \<open>NaN\<close>. In the parallel
  strategy nothing is written and nothing is delivered: \<open>getPositionParallel\<close> throws
  before the data is looked at. The sequential \<open>getPosition\<close> with the same provider
  writes the record and invokes the completion callback with no error and the position.
\<close>

theorem parallel_immediate_NaN_throws:
  "getPositionParallel Number_string decimal_toString
     (\<lambda>p. Some (Yields \<lparr>latitude = VNum NaN, longitude = VNum (Fin 2)\<rparr>, 250)) Map.empty 0 0
     \<lparr>providerTimeout = 10000, maximumAge = 86400000, providers = [''drift'']\<rparr> CallbackOnly =
     (Threw (TypeError ''Cannot read properties of undefined''),
      \<lparr>requests = [], uidCounter = 0, assigned = [],
       done_events = [Contacted ''drift'' 10000]\<rparr>) \<and>
   getPosition Number_string decimal_toString
     (\<lambda>p. Some (Yields \<lparr>latitude = VNum NaN, longitude = VNum (Fin 2)\<rparr>, 250)) Map.empty 0
     \<lparr>providerTimeout = 10000, maximumAge = 86400000, providers = [''drift'']\<rparr> CallbackOnly =
     (Returned, [Contacted ''drift'' 10000,
                 Replied ''drift'' (Yields \<lparr>latitude = VNum NaN, longitude = VNum (Fin 2)\<rparr>),
                 SetItem (ascii ''_GeoLocData'') (ascii ''NaN,2,250''),
                 Completed None (Some \<lparr>latitude = VNum NaN, longitude = VNum (Fin 2)\<rparr>)])"
  by code_simp

end
